theory Spec2Isabelle
  imports Main
begin

text \<open>
  The address detection of go-getter: the dispatchers \<open>Detect\<close> and \<open>CtxDetect\<close>
  with \<open>handleDetected\<close>, the Git detectors \<open>GitDetector\<close> and
  \<open>GitCtxDetector\<close>, and the forced-Git filepath resolver
  \<open>detectGitForceFilepath\<close>. These are embedded from the Go sources. What they
  call and the sources do not hold is a parameter of the embedding (the record
  \<open>externals\<close>); one value of it, for a Unix build, is defined further down.
\<close>

section \<open>Data model\<close>

text \<open>
  A Go \<open>error\<close> value is modelled by its message; \<open>fmt.Errorf\<close> with \<open>%s\<close> verbs is
  string concatenation. A Go result \<open>(string, bool, error)\<close> is the triple
  \<open>string \<times> bool \<times> error option\<close> (\<open>None\<close> is \<open>nil\<close>), so that a detector that
  returns \<open>"", true, err\<close> is told apart from one that returns \<open>"", false, err\<close>.
\<close>

datatype error = Error (message: string)

text \<open>The fields of Go's \<open>url.Userinfo\<close> and \<open>url.URL\<close>.\<close>

record Userinfo =
  username :: string
  password :: string
  passwordSet :: bool

record URL =
  Scheme :: string
  Opaque :: string
  User :: "Userinfo option"
  Host :: string
  Path :: string
  RawPath :: string
  ForceQuery :: bool
  RawQuery :: string
  Fragment :: string

text \<open>\<open>(*Userinfo).Username\<close>: the empty string on a nil receiver.\<close>

definition Username :: "Userinfo option \<Rightarrow> string" where
  "Username ui = (case ui of None \<Rightarrow> '''' | Some i \<Rightarrow> username i)"

type_synonym detect_result = "string \<times> bool \<times> error option"

text \<open>The \<open>Detector\<close> interface: \<open>Detect(src, pwd)\<close>.\<close>

type_synonym Detector = "string \<Rightarrow> string \<Rightarrow> detect_result"

text \<open>The \<open>CtxDetector\<close> interface:
  \<open>CtxDetect(src, pwd, forceToken, ctxSubDir, srcResolveFrom)\<close>.\<close>

type_synonym CtxDetector =
  "string \<Rightarrow> string \<Rightarrow> string \<Rightarrow> string \<Rightarrow> string \<Rightarrow> detect_result"

text \<open>
  The functions the detection code calls and that are not part of the files under
  study: the package's own helpers \<open>getForcedGetter\<close>, \<open>SourceDirSubdir\<close>,
  \<open>detectSSH\<close> and \<open>helper/url.Parse\<close>, and the Go standard library's \<open>net/url\<close> and
  \<open>path/filepath\<close>. The detection code is written against this record; the general
  theorems hold for every value of it. \<open>go_unix\<close> below is one value, used wherever
  a concrete string is evaluated.
\<close>

record externals =
  getForcedGetter :: "string \<Rightarrow> string \<times> string"
  SourceDirSubdir :: "string \<Rightarrow> string \<times> string"
  detectSSH :: "string \<Rightarrow> error + URL option"
  helper_url_Parse :: "string \<Rightarrow> error + URL"
  net_url_Parse :: "string \<Rightarrow> error + URL"
  URL_String :: "URL \<Rightarrow> string"
  filepath_IsAbs :: "string \<Rightarrow> bool"
  filepath_Join :: "string list \<Rightarrow> string"
  filepath_Clean :: "string \<Rightarrow> string"
  filepath_ToSlash :: "string \<Rightarrow> string"

text \<open>\<open>strings.HasPrefix\<close>.\<close>

definition strings_HasPrefix :: "string \<Rightarrow> string \<Rightarrow> bool" where
  "strings_HasPrefix s pre = (take (length pre) s = pre)"

section \<open>The Git detector (detect\_git.go)\<close>

text \<open>\<open>GitDetector.Detect\<close>, lines 13 to 32.\<close>

definition GitDetector_Detect :: "externals \<Rightarrow> Detector" where
  "GitDetector_Detect X src pwd =
    (if length src = 0 then ('''', False, None)
     else
       (case detectSSH X src of
          Inl err \<Rightarrow> ('''', True, Some err)
        | Inr None \<Rightarrow> ('''', False, None)
        | Inr (Some u) \<Rightarrow>
            if Username (User u) \<noteq> ''git'' then ('''', False, None)
            else (''git::'' @ URL_String X u, True, None)))"

text \<open>\<open>localSourcePrefixes\<close>, \<open>localExactMatches\<close> and \<open>isLocalSourceAddr\<close>,
  lines 1061 to 1084. Byte 0x5C is the backslash.\<close>

definition localSourcePrefixes :: "string list" where
  "localSourcePrefixes =
     [''./'', ''../'', [CHR ''.'', CHR 0x5C], [CHR ''.'', CHR ''.'', CHR 0x5C]]"

definition localExactMatches :: "string list" where
  "localExactMatches = [''.'', ''..'']"

definition isLocalSourceAddr :: "string \<Rightarrow> bool" where
  "isLocalSourceAddr addr =
     (if list_ex (\<lambda>v. v = addr) localExactMatches then True
      else if list_ex (\<lambda>pre. strings_HasPrefix addr pre) localSourcePrefixes then True
      else False)"

text \<open>
  The second half of \<open>detectGitForceFilepath\<close>, lines 968 to 1056: clean the
  resolved path, turn separators into slashes, prepend the slash that delimits the
  empty authority, parse as a \<open>file://\<close> URL and serialise it behind the force
  token.
\<close>

definition detectGitForceFilepath_emit :: "externals \<Rightarrow> string \<Rightarrow> string \<Rightarrow> detect_result" where
  "detectGitForceFilepath_emit X force srcResolved =
    (let srcResolvedClean = filepath_Clean X srcResolved;
         srcResolvedClean = filepath_ToSlash X srcResolvedClean;
         srcResolvedClean =
           (if \<not> strings_HasPrefix srcResolvedClean ''/'' then ''/'' @ srcResolvedClean
            else srcResolvedClean)
     in case net_url_Parse X (''file://'' @ srcResolvedClean) of
          Inl err \<Rightarrow>
            ('''', False,
             Some (Error (''error parsing 'git::' force filepath ('' @ srcResolvedClean
                          @ '') to URL: '' @ message err)))
        | Inr u \<Rightarrow> (force @ ''::'' @ URL_String X u, True, None))"

text \<open>
  \<open>detectGitForceFilepath\<close>, lines 822 to 1057. The arguments of the second
  \<open>fmt.Errorf\<close> are \<open>pwd\<close> and \<open>srcResolveFrom\<close>, as in the source.
\<close>

definition detectGitForceFilepath ::
  "externals \<Rightarrow> string \<Rightarrow> string \<Rightarrow> string \<Rightarrow> string \<Rightarrow> detect_result" where
  "detectGitForceFilepath X src pwd force srcResolveFrom =
    (if force \<noteq> ''git'' then ('''', False, None)
     else if length src = 0 then ('''', False, None)
     else if filepath_IsAbs X src then detectGitForceFilepath_emit X force src
     else if \<not> isLocalSourceAddr src then ('''', False, None)
     else if length srcResolveFrom > 0 then
       (if \<not> filepath_IsAbs X srcResolveFrom then
          ('''', False,
           Some (Error (''unable to resolve 'git::' forced filepath ('' @ src
                        @ ''); provided srcResolveFrom filepath ('' @ srcResolveFrom
                        @ '') is not rooted'')))
        else detectGitForceFilepath_emit X force (filepath_Join X [srcResolveFrom, src]))
     else if length pwd > 0 then
       (if \<not> filepath_IsAbs X pwd then
          ('''', False,
           Some (Error (''unable to resolve 'git::' forced filepath ('' @ pwd
                        @ ''); provided pwd filepath ('' @ srcResolveFrom
                        @ '') is not rooted'')))
        else detectGitForceFilepath_emit X force (filepath_Join X [pwd, src]))
     else
       ('''', False,
        Some (Error (''unable to resolve 'git::' force filepath ('' @ src
                     @ ''); neither pwd nor srcResolveFrom param was provided''))))"

text \<open>
  \<open>GitCtxDetector.CtxDetect\<close>, lines 705 to 750. When \<open>forceToken\<close> is empty the
  forced-filepath block is skipped, which is the same as that block declining.
\<close>

definition GitCtxDetector_CtxDetect :: "externals \<Rightarrow> CtxDetector" where
  "GitCtxDetector_CtxDetect X src pwd forceToken ctxSubDir srcResolveFrom =
    (let mustField = (''git'' = forceToken) in
     if length src = 0 then
       (if mustField then
          ('''', False, Some (Error ''forced 'git::' handling: src string must be non-empty''))
        else ('''', False, None))
     else
       (case (if length forceToken > 0
              then detectGitForceFilepath X src pwd forceToken srcResolveFrom
              else ('''', False, None)) of
          (rslt, ok, err) \<Rightarrow>
            if err \<noteq> None then ('''', False, err)
            else if ok then (rslt, True, None)
            else
              (case detectSSH X src of
                 Inl err \<Rightarrow> ('''', False, Some err)
               | Inr None \<Rightarrow>
                   if mustField then
                     ('''', False,
                      Some (Error (''forced 'git::' handling: ssh detection yielded nil URL for src: ''
                                   @ src)))
                   else ('''', False, None)
               | Inr (Some u) \<Rightarrow>
                   if Username (User u) \<noteq> ''git'' then
                     (if mustField then
                        ('''', False,
                         Some (Error (''forced 'git::' handling: ssh username is not 'git'; got: ''
                                      @ Username (User u) @ ''; src is: '' @ src)))
                      else ('''', False, None))
                   else (''git::'' @ URL_String X u, True, None))))"

section \<open>The dispatcher (detect.go, detect\_ctx.go)\<close>

text \<open>\<open>handleDetected\<close>: the detector's result is split into its own force token,
  its base and its subdir; the subdirs are merged, the merged subdir is appended to
  the parsed URL's \<open>Path\<close>, \<open>RawPath\<close> is set to the same text, and one force
  token is put in front.\<close>

definition handleDetected ::
  "externals \<Rightarrow> string \<Rightarrow> string \<Rightarrow> string \<Rightarrow> string \<times> error option" where
  "handleDetected X detectedResult srcGetForce subDir =
    (let detectForce = fst (getForcedGetter X detectedResult);
         result = snd (getForcedGetter X detectedResult);
         detectSubdir = snd (SourceDirSubdir X result);
         result = fst (SourceDirSubdir X result);
         subDir =
           (if detectSubdir \<noteq> '''' then
              (if subDir \<noteq> '''' then filepath_Join X [detectSubdir, subDir]
               else detectSubdir)
            else subDir)
     in (case (if subDir \<noteq> '''' then
                 (case helper_url_Parse X result of
                    Inl err \<Rightarrow> Inl (Error (''Error parsing URL: '' @ message err))
                  | Inr u \<Rightarrow>
                      Inr (URL_String X
                             (u\<lparr>Path := Path u @ ''//'' @ subDir,
                                RawPath := Path u @ ''//'' @ subDir\<rparr>)))
               else Inr result) of
           Inl err \<Rightarrow> ('''', Some err)
         | Inr result \<Rightarrow>
             (if srcGetForce \<noteq> '''' then (srcGetForce @ ''::'' @ result, None)
              else if detectForce \<noteq> '''' then (detectForce @ ''::'' @ result, None)
              else (result, None))))"

text \<open>The loop \<open>for _, d := range ds\<close> of \<open>Detect\<close>, with the statement after it.\<close>

fun Detect_range :: "externals \<Rightarrow> string \<Rightarrow> string \<Rightarrow> string \<Rightarrow> string \<Rightarrow> string
    \<Rightarrow> Detector list \<Rightarrow> string \<times> error option" where
  "Detect_range X src getSrc pwd getForce subDir [] =
     ('''', Some (Error (''invalid source string: '' @ src)))"
| "Detect_range X src getSrc pwd getForce subDir (d # ds) =
     (case d getSrc pwd of (result, ok, err) \<Rightarrow>
        if err \<noteq> None then ('''', err)
        else if \<not> ok then Detect_range X src getSrc pwd getForce subDir ds
        else
          (case handleDetected X result getForce subDir of (result, err) \<Rightarrow>
             if err \<noteq> None then ('''', err) else (result, None)))"

text \<open>\<open>Detect\<close>, as in the first copy of detect.go: the special case for the
  \<open>git::\<close> force token is commented out there, so the chain is all there is after
  the URL probe. (The second copy of detect.go has that special case live; it calls
  a three-argument \<open>detectGitForceFilepath\<close> that is present as a comment only and
  resolves against the process's working directory. That block is not modelled; when
  it commits, it hands its result to \<open>handleDetected\<close> with the same token and
  subdir as the loop does. \<open>CtxDetect\<close> reaches the forced-filepath resolver
  through \<open>GitCtxDetector\<close>.)\<close>

definition Detect :: "externals \<Rightarrow> string \<Rightarrow> string \<Rightarrow> Detector list \<Rightarrow> string \<times> error option" where
  "Detect X src pwd ds =
    (let getForce = fst (getForcedGetter X src);
         getSrc = snd (getForcedGetter X src);
         subDir = snd (SourceDirSubdir X getSrc);
         getSrc = fst (SourceDirSubdir X getSrc)
     in if (case helper_url_Parse X getSrc of Inl err \<Rightarrow> False | Inr u \<Rightarrow> Scheme u \<noteq> '''')
        then (src, None)
        else Detect_range X src getSrc pwd getForce subDir ds)"

text \<open>The loop \<open>for _, d := range cds\<close> of \<open>CtxDetect\<close>, with the statement after it.\<close>

fun CtxDetect_range :: "externals \<Rightarrow> string \<Rightarrow> string \<Rightarrow> string \<Rightarrow> string \<Rightarrow> string
    \<Rightarrow> string \<Rightarrow> CtxDetector list \<Rightarrow> string \<times> error option" where
  "CtxDetect_range X src getSrc pwd getForce subDir srcResolveFrom [] =
     ('''', Some (Error (''invalid source string: '' @ src)))"
| "CtxDetect_range X src getSrc pwd getForce subDir srcResolveFrom (d # cds) =
     (case d getSrc pwd getForce subDir srcResolveFrom of (result, ok, err) \<Rightarrow>
        if err \<noteq> None then ('''', err)
        else if \<not> ok then CtxDetect_range X src getSrc pwd getForce subDir srcResolveFrom cds
        else
          (case handleDetected X result getForce subDir of (result, err) \<Rightarrow>
             if err \<noteq> None then ('''', err) else (result, None)))"

text \<open>\<open>CtxDetect\<close>, detect\_ctx.go lines 95 to 146.\<close>

definition CtxDetect ::
  "externals \<Rightarrow> string \<Rightarrow> string \<Rightarrow> string \<Rightarrow> CtxDetector list \<Rightarrow> string \<times> error option" where
  "CtxDetect X src pwd srcResolveFrom cds =
    (let getForce = fst (getForcedGetter X src);
         getSrc = snd (getForcedGetter X src);
         subDir = snd (SourceDirSubdir X getSrc);
         getSrc = fst (SourceDirSubdir X getSrc)
     in if (case helper_url_Parse X getSrc of Inl err \<Rightarrow> False | Inr u \<Rightarrow> Scheme u \<noteq> '''')
        then (src, None)
        else CtxDetect_range X src getSrc pwd getForce subDir srcResolveFrom cds)"

section \<open>Package strings\<close>

text \<open>\<open>strings.Index\<close>: the index of the first occurrence, \<open>None\<close> for Go's \<open>-1\<close>.\<close>

fun strings_Index :: "string \<Rightarrow> string \<Rightarrow> nat option" where
  "strings_Index [] sub = (if sub = [] then Some 0 else None)"
| "strings_Index (c # cs) sub =
     (if strings_HasPrefix (c # cs) sub then Some 0
      else map_option Suc (strings_Index cs sub))"

definition strings_LastIndexByte :: "string \<Rightarrow> char \<Rightarrow> nat option" where
  "strings_LastIndexByte s c =
     (case strings_Index (rev s) [c] of
        None \<Rightarrow> None
      | Some i \<Rightarrow> Some (length s - 1 - i))"

definition strings_HasSuffix :: "string \<Rightarrow> string \<Rightarrow> bool" where
  "strings_HasSuffix s suf = strings_HasPrefix (rev s) (rev suf)"

fun strings_Split :: "string \<Rightarrow> char \<Rightarrow> string list" where
  "strings_Split [] sep = [[]]"
| "strings_Split (c # cs) sep =
     (if c = sep then [] # strings_Split cs sep
      else (case strings_Split cs sep of
              [] \<Rightarrow> [[c]]
            | x # xs \<Rightarrow> (c # x) # xs))"

fun strings_Join :: "string list \<Rightarrow> string \<Rightarrow> string" where
  "strings_Join [] sep = []"
| "strings_Join [x] sep = x"
| "strings_Join (x # y # ys) sep = x @ sep @ strings_Join (y # ys) sep"

section \<open>The package's helpers that are not among the files under study\<close>

text \<open>
  Modelled from the spec: \<open>getForcedGetter\<close> is missing from the sources. The spec
  (4.1, splitForcedToken): the token is the substring before the first \<open>::\<close> if and
  only if everything before it is a plausible backend name (no \<open>/\<close>); otherwise no
  token is present and the whole string is the rest. A backend name is taken to be
  non-empty.
\<close>

definition getForcedGetter_spec :: "string \<Rightarrow> string \<times> string" where
  "getForcedGetter_spec address =
     (case strings_Index address ''::'' of
        None \<Rightarrow> ('''', address)
      | Some i \<Rightarrow>
          if take i address \<noteq> '''' \<and> CHR ''/'' \<notin> set (take i address)
          then (take i address, drop (i + 2) address)
          else ('''', address))"

text \<open>
  Modelled from the spec: \<open>SourceDirSubdir\<close> is missing from the sources. The spec
  (4.1, splitSubdir): the query string, if any, is detached first; the first \<open>//\<close>
  that is not part of a scheme's \<open>://\<close> separates base from subdir; without one the
  subdir is empty. The query goes back onto the base, which is where the package's
  tests expect it (\<open>a.git//module/a?ref=b\<close> is detected with the query after the
  subdir of the rebuilt URL).
\<close>

definition SourceDirSubdir_spec :: "string \<Rightarrow> string \<times> string" where
  "SourceDirSubdir_spec address =
     (let stop = (case strings_Index address ''?'' of Some i \<Rightarrow> i | None \<Rightarrow> length address);
          body = take stop address;
          query = drop stop address;
          offset = (case strings_Index body ''://'' of Some i \<Rightarrow> i + 3 | None \<Rightarrow> 0)
      in case strings_Index (drop offset body) ''//'' of
           None \<Rightarrow> (address, '''')
         | Some i \<Rightarrow> (take (offset + i) body @ query, drop (offset + i + 2) body))"

section \<open>Package net/url\<close>

text \<open>
  A model of the parts of Go's \<open>net/url\<close> that \<open>Parse\<close> and \<open>URL.String\<close> go
  through, written after the library's functions of the same names. The \<open>URL\<close>
  record has the fields the library had before Go 1.15, without the later
  \<open>RawFragment\<close> and \<open>OmitHost\<close>: \<open>URL.String\<close> writes the fragment escaped
  anew from \<open>Fragment\<close>, and writes \<open>//\<close> in front of the path of a URL with a
  scheme and an empty host (\<open>file:///x\<close> for \<open>file:/x\<close>), where a later library
  keeps these as they were parsed.
  \<open>strconv.Quote\<close> is modelled as putting the text between double quotes, which
  is what it does for printable ASCII without quotes and backslashes; control
  bytes, quotes, backslashes and bytes outside ASCII are copied where the library
  writes an escape sequence, which touches the text of error messages only. RFC 6874
  zone identifiers inside a bracketed IP literal are not told apart from the rest of
  the host.
\<close>

datatype encoding =
  encodePath | encodePathSegment | encodeHost | encodeZone
  | encodeUserPassword | encodeQueryComponent | encodeFragment

definition is_alpha :: "char \<Rightarrow> bool" where
  "is_alpha c = (let n = (of_char c :: nat) in (97 \<le> n \<and> n \<le> 122) \<or> (65 \<le> n \<and> n \<le> 90))"

definition is_digit :: "char \<Rightarrow> bool" where
  "is_digit c = (let n = (of_char c :: nat) in 48 \<le> n \<and> n \<le> 57)"

definition strings_ToLower :: "string \<Rightarrow> string" where
  "strings_ToLower s =
     map (\<lambda>c. let n = (of_char c :: nat) in if 65 \<le> n \<and> n \<le> 90 then char_of (n + 32) else c) s"

definition strconv_Quote :: "string \<Rightarrow> string" where
  "strconv_Quote s = [CHR 0x22] @ s @ [CHR 0x22]"

definition reserved_chars :: string where
  "reserved_chars = ''$&+,/:;=?@''"

definition shouldEscape :: "char \<Rightarrow> encoding \<Rightarrow> bool" where
  "shouldEscape c mode =
     (if is_alpha c \<or> is_digit c then False
      else if (mode = encodeHost \<or> mode = encodeZone)
              \<and> c \<in> set (''!$&()*+,;=:[]<>'' @ [CHR 0x27, CHR 0x22]) then False
      else if c \<in> set ''-_.~'' then False
      else if c \<in> set reserved_chars \<and> mode = encodePath then c = CHR ''?''
      else if c \<in> set reserved_chars \<and> mode = encodePathSegment then c \<in> set ''/;,?''
      else if c \<in> set reserved_chars \<and> mode = encodeUserPassword then c \<in> set ''@/?:''
      else if c \<in> set reserved_chars \<and> mode = encodeQueryComponent then True
      else if c \<in> set reserved_chars \<and> mode = encodeFragment then False
      else if mode = encodeFragment \<and> c \<in> set ''!()*'' then False
      else True)"

definition ishex :: "char \<Rightarrow> bool" where
  "ishex c = (let n = (of_char c :: nat) in
     is_digit c \<or> (97 \<le> n \<and> n \<le> 102) \<or> (65 \<le> n \<and> n \<le> 70))"

definition unhex :: "char \<Rightarrow> nat" where
  "unhex c = (let n = (of_char c :: nat) in
     if is_digit c then n - 48
     else if 97 \<le> n \<and> n \<le> 102 then n - 97 + 10
     else if 65 \<le> n \<and> n \<le> 70 then n - 65 + 10
     else 0)"

definition upperhex :: string where
  "upperhex = ''0123456789ABCDEF''"

definition escape :: "string \<Rightarrow> encoding \<Rightarrow> string" where
  "escape s mode =
     concat (map (\<lambda>c.
       if shouldEscape c mode then
         (if c = CHR '' '' \<and> mode = encodeQueryComponent then ''+''
          else [CHR ''%'', upperhex ! ((of_char c :: nat) div 16),
                upperhex ! ((of_char c :: nat) mod 16)])
       else [c]) s)"

definition EscapeError :: "string \<Rightarrow> error" where
  "EscapeError s = Error (''invalid URL escape '' @ strconv_Quote s)"

definition InvalidHostError :: "string \<Rightarrow> error" where
  "InvalidHostError s = Error (''invalid character '' @ strconv_Quote s @ '' in host name'')"

fun unescape :: "string \<Rightarrow> encoding \<Rightarrow> error + string" where
  "unescape [] mode = Inr []"
| "unescape (c # cs) mode =
     (if c = CHR ''%'' then
        (case cs of
           h1 # h2 # rest \<Rightarrow>
             (if \<not> ishex h1 \<or> \<not> ishex h2 then Inl (EscapeError [c, h1, h2])
              else if mode = encodeHost \<and> unhex h1 < 8 \<and> [c, h1, h2] \<noteq> ''%25''
                then Inl (EscapeError [c, h1, h2])
              else if mode = encodeZone \<and> [c, h1, h2] \<noteq> ''%25''
                      \<and> unhex h1 * 16 + unhex h2 \<noteq> 32
                      \<and> shouldEscape (char_of (unhex h1 * 16 + unhex h2)) encodeHost
                then Inl (EscapeError [c, h1, h2])
              else (case unescape rest mode of
                      Inl err \<Rightarrow> Inl err
                    | Inr t \<Rightarrow> Inr (char_of (unhex h1 * 16 + unhex h2) # t)))
         | _ \<Rightarrow> Inl (EscapeError (c # cs)))
      else if c = CHR ''+'' \<and> mode = encodeQueryComponent then
        (case unescape cs mode of Inl err \<Rightarrow> Inl err | Inr t \<Rightarrow> Inr (CHR '' '' # t))
      else if (mode = encodeHost \<or> mode = encodeZone) \<and> (of_char c :: nat) < 128
              \<and> shouldEscape c encodeHost then Inl (InvalidHostError [c])
      else (case unescape cs mode of Inl err \<Rightarrow> Inl err | Inr t \<Rightarrow> Inr (c # t)))"

definition validEncoded :: "string \<Rightarrow> encoding \<Rightarrow> bool" where
  "validEncoded s mode =
     list_all (\<lambda>c. c \<in> set (''!$&()*+,;=:@[]%'' @ [CHR 0x27]) \<or> \<not> shouldEscape c mode) s"

text \<open>\<open>split(s, sep, cutc)\<close> of net/url.\<close>

definition url_split :: "string \<Rightarrow> char \<Rightarrow> bool \<Rightarrow> string \<times> string" where
  "url_split s sep cutc =
     (case strings_Index s [sep] of
        None \<Rightarrow> (s, '''')
      | Some i \<Rightarrow> if cutc then (take i s, drop (i + 1) s) else (take i s, drop i s))"

text \<open>\<open>getScheme\<close>: the loop over the bytes, with the index \<open>i\<close> counted up.\<close>

fun getScheme_from :: "string \<Rightarrow> nat \<Rightarrow> string \<Rightarrow> error + string \<times> string" where
  "getScheme_from rawURL i [] = Inr ('''', rawURL)"
| "getScheme_from rawURL i (c # cs) =
     (if is_alpha c then getScheme_from rawURL (i + 1) cs
      else if is_digit c \<or> c = CHR ''+'' \<or> c = CHR ''-'' \<or> c = CHR ''.'' then
        (if i = 0 then Inr ('''', rawURL) else getScheme_from rawURL (i + 1) cs)
      else if c = CHR '':'' then
        (if i = 0 then Inl (Error ''missing protocol scheme'')
         else Inr (take i rawURL, drop (i + 1) rawURL))
      else Inr ('''', rawURL))"

definition getScheme :: "string \<Rightarrow> error + string \<times> string" where
  "getScheme rawURL = getScheme_from rawURL 0 rawURL"

definition stringContainsCTLByte :: "string \<Rightarrow> bool" where
  "stringContainsCTLByte s = list_ex (\<lambda>b. (of_char b :: nat) < 32 \<or> (of_char b :: nat) = 127) s"

definition validOptionalPort :: "string \<Rightarrow> bool" where
  "validOptionalPort port =
     (case port of
        [] \<Rightarrow> True
      | c # ds \<Rightarrow> c = CHR '':'' \<and> list_all is_digit ds)"

definition validUserinfo :: "string \<Rightarrow> bool" where
  "validUserinfo s =
     list_all (\<lambda>r. is_alpha r \<or> is_digit r
                   \<or> r \<in> set (''-._:~!$&()*+,;=%@'' @ [CHR 0x27])) s"

definition parseHost :: "string \<Rightarrow> error + string" where
  "parseHost host =
     (if strings_HasPrefix host ''['' then
        (case strings_LastIndexByte host (CHR '']'') of
           None \<Rightarrow> Inl (Error (''missing '' @ [CHR 0x27] @ '']'' @ [CHR 0x27] @ '' in host''))
         | Some i \<Rightarrow>
             if \<not> validOptionalPort (drop (i + 1) host) then
               Inl (Error (''invalid port '' @ strconv_Quote (drop (i + 1) host) @ '' after host''))
             else unescape host encodeHost)
      else
        (case strings_LastIndexByte host (CHR '':'') of
           None \<Rightarrow> unescape host encodeHost
         | Some i \<Rightarrow>
             if \<not> validOptionalPort (drop i host) then
               Inl (Error (''invalid port '' @ strconv_Quote (drop i host) @ '' after host''))
             else unescape host encodeHost))"

definition parseAuthority :: "string \<Rightarrow> error + Userinfo option \<times> string" where
  "parseAuthority authority =
     (case strings_LastIndexByte authority (CHR ''@'') of
        None \<Rightarrow>
          (case parseHost authority of Inl err \<Rightarrow> Inl err | Inr host \<Rightarrow> Inr (None, host))
      | Some i \<Rightarrow>
          (case parseHost (drop (i + 1) authority) of
             Inl err \<Rightarrow> Inl err
           | Inr host \<Rightarrow>
               (let userinfo = take i authority in
                if \<not> validUserinfo userinfo then Inl (Error ''net/url: invalid userinfo'')
                else if CHR '':'' \<notin> set userinfo then
                  (case unescape userinfo encodeUserPassword of
                     Inl err \<Rightarrow> Inl err
                   | Inr name \<Rightarrow>
                       Inr (Some \<lparr>username = name, password = '''', passwordSet = False\<rparr>, host))
                else
                  (case unescape (fst (url_split userinfo (CHR '':'') True)) encodeUserPassword of
                     Inl err \<Rightarrow> Inl err
                   | Inr name \<Rightarrow>
                       (case unescape (snd (url_split userinfo (CHR '':'') True))
                               encodeUserPassword of
                          Inl err \<Rightarrow> Inl err
                        | Inr pass \<Rightarrow>
                            Inr (Some \<lparr>username = name, password = pass, passwordSet = True\<rparr>,
                                 host))))))"

definition empty_URL :: URL where
  "empty_URL = \<lparr>Scheme = '''', Opaque = '''', User = None, Host = '''', Path = '''',
                RawPath = '''', ForceQuery = False, RawQuery = '''', Fragment = ''''\<rparr>"

definition setPath :: "URL \<Rightarrow> string \<Rightarrow> error + URL" where
  "setPath u p =
     (case unescape p encodePath of
        Inl err \<Rightarrow> Inl err
      | Inr path \<Rightarrow>
          if p = escape path encodePath then Inr (u\<lparr>Path := path, RawPath := ''''\<rparr>)
          else Inr (u\<lparr>Path := path, RawPath := p\<rparr>))"

text \<open>The first steps of \<open>parse\<close> after the scheme: the query is cut off the
  rest; a lone trailing \<open>?\<close> sets \<open>ForceQuery\<close>.\<close>

definition parse_query :: "string \<Rightarrow> string \<Rightarrow> URL \<times> string" where
  "parse_query scheme rest =
     (if strings_HasSuffix rest ''?'' \<and> count_list rest (CHR ''?'') = 1
      then (empty_URL\<lparr>Scheme := strings_ToLower scheme, ForceQuery := True\<rparr>, butlast rest)
      else (empty_URL\<lparr>Scheme := strings_ToLower scheme,
                      RawQuery := snd (url_split rest (CHR ''?'') True)\<rparr>,
            fst (url_split rest (CHR ''?'') True)))"

text \<open>The check of \<open>parse\<close> on a relative reference: the first path segment holds
  a colon.\<close>

definition first_segment_has_colon :: "string \<Rightarrow> bool" where
  "first_segment_has_colon rest =
     (case strings_Index rest '':'' of
        None \<Rightarrow> False
      | Some colon \<Rightarrow>
          (case strings_Index rest ''/'' of
             None \<Rightarrow> True
           | Some slash \<Rightarrow> colon < slash))"

text \<open>\<open>parse(rawURL, viaRequest)\<close> with \<open>viaRequest = false\<close>.\<close>

definition parse :: "string \<Rightarrow> error + URL" where
  "parse rawURL =
     (if stringContainsCTLByte rawURL then
        Inl (Error ''net/url: invalid control character in URL'')
      else if rawURL = ''*'' then Inr (empty_URL\<lparr>Path := ''*''\<rparr>)
      else
        (case getScheme rawURL of
           Inl err \<Rightarrow> Inl err
         | Inr (scheme, rest0) \<Rightarrow>
             (let url = fst (parse_query scheme rest0);
                  rest = snd (parse_query scheme rest0)
              in if \<not> strings_HasPrefix rest ''/'' \<and> Scheme url \<noteq> '''' then
                   Inr (url\<lparr>Opaque := rest\<rparr>)
                 else if \<not> strings_HasPrefix rest ''/'' \<and> first_segment_has_colon rest then
                   Inl (Error ''first path segment in URL cannot contain colon'')
                 else if (Scheme url \<noteq> '''' \<or> \<not> strings_HasPrefix rest ''///'')
                         \<and> strings_HasPrefix rest ''//'' then
                   (case parseAuthority (fst (url_split (drop 2 rest) (CHR ''/'') False)) of
                      Inl err \<Rightarrow> Inl err
                    | Inr (user, host) \<Rightarrow>
                        setPath (url\<lparr>User := user, Host := host\<rparr>)
                          (snd (url_split (drop 2 rest) (CHR ''/'') False)))
                 else setPath url rest)))"

text \<open>\<open>url.Error.Error\<close>: \<open>op "url": err\<close>.\<close>

definition url_Error :: "string \<Rightarrow> string \<Rightarrow> error \<Rightarrow> error" where
  "url_Error op u err = Error (op @ '' '' @ strconv_Quote u @ '': '' @ message err)"

definition url_Parse :: "string \<Rightarrow> error + URL" where
  "url_Parse rawURL =
     (let u = fst (url_split rawURL (CHR ''#'') True);
          frag = snd (url_split rawURL (CHR ''#'') True)
      in case parse u of
           Inl err \<Rightarrow> Inl (url_Error ''parse'' u err)
         | Inr url \<Rightarrow>
             (if frag = '''' then Inr url
              else (case unescape frag encodeFragment of
                      Inl err \<Rightarrow> Inl (url_Error ''parse'' rawURL err)
                    | Inr f \<Rightarrow> Inr (url\<lparr>Fragment := f\<rparr>))))"

definition EscapedPath :: "URL \<Rightarrow> string" where
  "EscapedPath u =
     (if RawPath u \<noteq> '''' \<and> validEncoded (RawPath u) encodePath
         \<and> unescape (RawPath u) encodePath = Inr (Path u) then RawPath u
      else if Path u = ''*'' then ''*''
      else escape (Path u) encodePath)"

definition Userinfo_String :: "Userinfo \<Rightarrow> string" where
  "Userinfo_String ui =
     escape (username ui) encodeUserPassword
     @ (if passwordSet ui then '':'' @ escape (password ui) encodeUserPassword else '''')"

text \<open>The part of \<open>URL.String\<close> between the scheme and the path: \<open>//\<close>, the
  userinfo and the host.\<close>

definition String_authority :: "URL \<Rightarrow> string" where
  "String_authority u =
     (if Scheme u \<noteq> '''' \<or> Host u \<noteq> '''' \<or> User u \<noteq> None then
        (if Host u \<noteq> '''' \<or> Path u \<noteq> '''' \<or> User u \<noteq> None then ''//'' else '''')
        @ (case User u of None \<Rightarrow> '''' | Some ui \<Rightarrow> Userinfo_String ui @ ''@'')
        @ (if Host u \<noteq> '''' then escape (Host u) encodeHost else '''')
      else '''')"

text \<open>The part of \<open>URL.String\<close> that writes the path behind the text \<open>buf\<close>
  written so far.\<close>

definition String_path :: "URL \<Rightarrow> string \<Rightarrow> string" where
  "String_path u buf =
     (let path = EscapedPath u;
          buf1 = (if path \<noteq> '''' \<and> hd path \<noteq> CHR ''/'' \<and> Host u \<noteq> '''' then buf @ ''/''
                  else buf);
          buf2 = (if buf1 = ''''
                     \<and> (case strings_Index path '':'' of
                           None \<Rightarrow> False
                         | Some i \<Rightarrow> CHR ''/'' \<notin> set (take i path))
                  then buf1 @ ''./'' else buf1)
      in buf2 @ path)"

text \<open>\<open>URL.String\<close>.\<close>

definition url_String :: "URL \<Rightarrow> string" where
  "url_String u =
     (let buf = (if Scheme u \<noteq> '''' then Scheme u @ '':'' else '''');
          buf1 = (if Opaque u \<noteq> '''' then buf @ Opaque u
                  else String_path u (buf @ String_authority u));
          buf2 = (if ForceQuery u \<or> RawQuery u \<noteq> '''' then buf1 @ ''?'' @ RawQuery u else buf1);
          buf3 = (if Fragment u \<noteq> '''' then buf2 @ ''#'' @ escape (Fragment u) encodeFragment
                  else buf2)
      in buf3)"

text \<open>
  Modelled from the spec: \<open>detectSSH\<close> is missing from the sources. The spec (4.2):
  the input has no recognised URI scheme; the grammar is \<open>user@host:path\<close>, where
  the host holds no \<open>:\<close> and no \<open>/\<close> before the separating colon and the path is
  everything after it; the outcome is \<open>ssh://user@host/path\<close> with a trailing
  \<open>?query\<close> kept; a string that parses as a scheme-qualified URI, or that has no
  \<open>user@host:\<close> prefix, is no match. The URL is returned as a value with the
  path as written; \<open>URL.String\<close> puts the slash between host and path.
\<close>

definition detectSSH_spec :: "string \<Rightarrow> error + URL option" where
  "detectSSH_spec src =
     (if (case url_Parse src of Inl err \<Rightarrow> False | Inr u \<Rightarrow> Scheme u \<noteq> '''') then Inr None
      else
        (case strings_Index src ''@'' of
           None \<Rightarrow> Inr None
         | Some i \<Rightarrow>
             (case strings_Index (drop (i + 1) src) '':'' of
                None \<Rightarrow> Inr None
              | Some j \<Rightarrow>
                  (let user = take i src;
                       host = take j (drop (i + 1) src);
                       rest = drop (j + 1) (drop (i + 1) src)
                   in if user = '''' \<or> host = '''' \<or> CHR ''/'' \<in> set host \<or> rest = ''''
                      then Inr None
                      else
                        Inr (Some (empty_URL\<lparr>Scheme := ''ssh'',
                               User := Some \<lparr>username = user, password = '''',
                                             passwordSet = False\<rparr>,
                               Host := host,
                               Path := fst (url_split rest (CHR ''?'') True),
                               RawQuery := snd (url_split rest (CHR ''?'') True)\<rparr>))))))"

section \<open>Package path/filepath on Unix\<close>

text \<open>
  \<open>filepath.Clean\<close> on a platform whose separator is \<open>/\<close>, after its documented
  rules: runs of separators become one, \<open>.\<close> elements go, an inner \<open>..\<close>
  removes the element before it, a \<open>..\<close> at the root goes, a leading run of
  \<open>..\<close> of a relative path stays; the empty result is \<open>.\<close>. \<open>out\<close> holds the
  elements kept so far, last one first.
\<close>

fun Clean_elems :: "bool \<Rightarrow> string list \<Rightarrow> string list \<Rightarrow> string list" where
  "Clean_elems rooted out [] = rev out"
| "Clean_elems rooted out (e # es) =
     (if e = '''' \<or> e = ''.'' then Clean_elems rooted out es
      else if e = ''..'' then
        (case out of
           [] \<Rightarrow> (if rooted then Clean_elems rooted [] es else Clean_elems rooted [''..''] es)
         | kept # below \<Rightarrow>
             (if kept = ''..'' then Clean_elems rooted (''..'' # out) es
              else Clean_elems rooted below es))
      else Clean_elems rooted (e # out) es)"

definition unix_Clean :: "string \<Rightarrow> string" where
  "unix_Clean path =
     (if path = '''' then ''.''
      else
        (let rooted = strings_HasPrefix path ''/'';
             body = strings_Join (Clean_elems rooted [] (strings_Split path (CHR ''/''))) ''/''
         in if rooted then ''/'' @ body
            else if body = '''' then ''.''
            else body))"

text \<open>\<open>filepath.Join\<close> on Unix: the elements from the first non-empty one on are
  joined with \<open>/\<close> and cleaned; the result is empty when all are empty.\<close>

definition unix_Join :: "string list \<Rightarrow> string" where
  "unix_Join elem =
     (case dropWhile (\<lambda>e. e = '''') elem of
        [] \<Rightarrow> ''''
      | e # es \<Rightarrow> unix_Clean (strings_Join (e # es) ''/''))"

definition unix_IsAbs :: "string \<Rightarrow> bool" where
  "unix_IsAbs path = strings_HasPrefix path ''/''"

definition unix_ToSlash :: "string \<Rightarrow> string" where
  "unix_ToSlash path = path"

text \<open>
  The externals on a Unix build: \<open>helper/url.Parse\<close> is \<open>net/url.Parse\<close> there
  (the helper differs on Windows only).
\<close>

definition go_unix :: externals where
  "go_unix =
     \<lparr>getForcedGetter = getForcedGetter_spec,
      SourceDirSubdir = SourceDirSubdir_spec,
      detectSSH = detectSSH_spec,
      helper_url_Parse = url_Parse,
      net_url_Parse = url_Parse,
      URL_String = url_String,
      filepath_IsAbs = unix_IsAbs,
      filepath_Join = unix_Join,
      filepath_Clean = unix_Clean,
      filepath_ToSlash = unix_ToSlash\<rparr>"

text \<open>What \<open>Parse\<close> makes of a string that begins with \<open>file:///\<close>: the scheme
  \<open>file\<close>, no opaque part, no userinfo, an empty host, and a path (and raw path,
  when kept) that begins with a slash.\<close>

definition file_shaped :: "URL \<Rightarrow> bool" where
  "file_shaped u \<longleftrightarrow>
     Scheme u = ''file'' \<and> Opaque u = '''' \<and> User u = None \<and> Host u = ''''
     \<and> (\<exists>p. Path u = CHR ''/'' # p) \<and> (RawPath u = '''' \<or> (\<exists>q. RawPath u = CHR ''/'' # q))"

section \<open>Detectors used to exercise the dispatcher\<close>

text \<open>A chain member that fails whenever it is consulted: a call that returns
  without that error has not consulted it.\<close>

definition failing_Detector :: Detector where
  "failing_Detector src pwd = ('''', True, Some (Error ''consulted''))"

definition failing_CtxDetector :: CtxDetector where
  "failing_CtxDetector src pwd forceToken ctxSubDir srcResolveFrom =
     ('''', True, Some (Error ''consulted''))"

text \<open>A chain member that commits on every address.\<close>

definition matching_Detector :: Detector where
  "matching_Detector src pwd = (''file:///matched'', True, None)"

definition matching_CtxDetector :: CtxDetector where
  "matching_CtxDetector src pwd forceToken ctxSubDir srcResolveFrom =
     (''file:///matched'', True, None)"

text \<open>A chain member that declines every address.\<close>

definition declining_Detector :: Detector where
  "declining_Detector src pwd = ('''', False, None)"

definition declining_CtxDetector :: CtxDetector where
  "declining_CtxDetector src pwd forceToken ctxSubDir srcResolveFrom = ('''', False, None)"

section \<open>Plain SSH addresses\<close>

text \<open>
  The addresses \<open>git@host:path\<close> on which a second run of the dispatchers is
  studied below: \<open>host\<close> is a non-empty string of letters, digits, \<open>-\<close>, \<open>.\<close> and
  \<open>_\<close>; \<open>path\<close> is a non-empty string of these bytes and \<open>/\<close> that does not
  begin with \<open>/\<close> and holds no \<open>//\<close>.
\<close>

definition plain_byte :: "char \<Rightarrow> bool" where
  "plain_byte c \<longleftrightarrow> is_alpha c \<or> is_digit c \<or> c \<in> set ''-._''"

definition plain_host :: "string \<Rightarrow> bool" where
  "plain_host host \<longleftrightarrow> host \<noteq> '''' \<and> list_all plain_byte host"

definition plain_path :: "string \<Rightarrow> bool" where
  "plain_path path \<longleftrightarrow>
     path \<noteq> '''' \<and> \<not> strings_HasPrefix path ''/''
     \<and> list_all (\<lambda>c. plain_byte c \<or> c = CHR ''/'') path
     \<and> strings_Index path ''//'' = None"

text \<open>The URL that \<open>detectSSH\<close> returns for such an address: user \<open>git\<close>, the
  host, and the path as written.\<close>

definition ssh_URL :: "string \<Rightarrow> string \<Rightarrow> URL" where
  "ssh_URL host path =
     empty_URL\<lparr>Scheme := ''ssh'',
        User := Some \<lparr>username = ''git'', password = '''', passwordSet = False\<rparr>,
        Host := host, Path := path, RawQuery := ''''\<rparr>"

section \<open>Properties\<close>

subsection \<open>The package's tests, on the Unix externals\<close>

text \<open>The cases of \<open>TestGitDetector\<close>: the helpers modelled from the spec and the
  model of \<open>net/url\<close> give the outputs the package's tests expect.\<close>

lemma TestGitDetector:
  "Detect go_unix ''git@github.com:hashicorp/foo.git'' ''/pwd'' [GitDetector_Detect go_unix]
     = (''git::ssh://git@github.com/hashicorp/foo.git'', None)"
  "Detect go_unix ''git@github.com:org/project.git?ref=test-branch'' ''/pwd''
     [GitDetector_Detect go_unix]
     = (''git::ssh://git@github.com/org/project.git?ref=test-branch'', None)"
  "Detect go_unix ''git@github.com:hashicorp/foo.git//bar'' ''/pwd'' [GitDetector_Detect go_unix]
     = (''git::ssh://git@github.com/hashicorp/foo.git//bar'', None)"
  "Detect go_unix ''git@github.com:hashicorp/foo.git?foo=bar'' ''/pwd''
     [GitDetector_Detect go_unix]
     = (''git::ssh://git@github.com/hashicorp/foo.git?foo=bar'', None)"
  "Detect go_unix ''git@github.xyz.com:org/project.git'' ''/pwd'' [GitDetector_Detect go_unix]
     = (''git::ssh://git@github.xyz.com/org/project.git'', None)"
  "Detect go_unix ''git@github.xyz.com:org/project.git?ref=test-branch'' ''/pwd''
     [GitDetector_Detect go_unix]
     = (''git::ssh://git@github.xyz.com/org/project.git?ref=test-branch'', None)"
  "Detect go_unix ''git@github.xyz.com:org/project.git//module/a'' ''/pwd''
     [GitDetector_Detect go_unix]
     = (''git::ssh://git@github.xyz.com/org/project.git//module/a'', None)"
  "Detect go_unix ''git@github.xyz.com:org/project.git//module/a?ref=test-branch'' ''/pwd''
     [GitDetector_Detect go_unix]
     = (''git::ssh://git@github.xyz.com/org/project.git//module/a?ref=test-branch'', None)"
  "Detect go_unix ''git::ssh://git@git.example.com:2222/hashicorp/foo.git'' ''/pwd''
     [GitDetector_Detect go_unix]
     = (''git::ssh://git@git.example.com:2222/hashicorp/foo.git'', None)"
  by code_simp+

text \<open>Cases of the forced-filepath tests, run through \<open>CtxDetect\<close> with the
  working directory as base; the last one is the resolver called directly, where a
  \<open>//\<close> inside the path is cleaned away.\<close>

lemma Test_detectGitForceFilepath_through_CtxDetect:
  "CtxDetect go_unix ''git::/somedir'' ''/pwd'' '''' [GitCtxDetector_CtxDetect go_unix]
     = (''git::file:///somedir'', None)"
  "CtxDetect go_unix ''git::./somedir/two/three'' ''/pwd'' '''' [GitCtxDetector_CtxDetect go_unix]
     = (''git::file:///pwd/somedir/two/three'', None)"
  "CtxDetect go_unix ''git::/somedir/two//three'' ''/pwd'' '''' [GitCtxDetector_CtxDetect go_unix]
     = (''git::file:///somedir/two//three'', None)"
  "CtxDetect go_unix ''git::./somedir/two//three?ref=v4.5.6'' ''/pwd'' ''''
     [GitCtxDetector_CtxDetect go_unix]
     = (''git::file:///pwd/somedir/two//three?ref=v4.5.6'', None)"
  "CtxDetect go_unix ''git::../../some-grandparent-dir/childdir//moduledir?ref=v1.2.3''
     ''/a/b/c'' '''' [GitCtxDetector_CtxDetect go_unix]
     = (''git::file:///a/some-grandparent-dir/childdir//moduledir?ref=v1.2.3'', None)"
  "detectGitForceFilepath go_unix ''./somedir/two//three'' ''/pwd'' ''git'' ''''
     = (''git::file:///pwd/somedir/two/three'', True, None)"
  by code_simp+
subsection \<open>The URL probe\<close>

lemma Detect_valid_url:
  assumes "helper_url_Parse X (fst (SourceDirSubdir X (snd (getForcedGetter X src)))) = Inr u"
      and "Scheme u \<noteq> ''''"
  shows "Detect X src pwd ds = (src, None)"
  using assms by (simp add: Detect_def Let_def)

lemma CtxDetect_valid_url:
  assumes "helper_url_Parse X (fst (SourceDirSubdir X (snd (getForcedGetter X src)))) = Inr u"
      and "Scheme u \<noteq> ''''"
  shows "CtxDetect X src pwd srcResolveFrom cds = (src, None)"
  using assms by (simp add: CtxDetect_def Let_def)

text \<open>
  C1. Whenever the body of the address (the address without its force token and
  without its subdir) parses as a URL with a non-empty scheme, \<open>Detect\<close> and
  \<open>CtxDetect\<close> return the input itself and no error. The chains \<open>ds\<close> and \<open>cds\<close>
  are arbitrary, so the result does not depend on any detector; the statement holds
  for every implementation of the helpers.
\<close>

theorem C1_valid_url_returned_unchanged:
  assumes "helper_url_Parse X (fst (SourceDirSubdir X (snd (getForcedGetter X src)))) = Inr u"
      and "Scheme u \<noteq> ''''"
  shows "Detect X src pwd ds = (src, None)
       \<and> CtxDetect X src pwd srcResolveFrom cds = (src, None)"
  using assms by (simp add: Detect_valid_url CtxDetect_valid_url)

text \<open>The address of the package's test "already in the canonical form", with a
  chain whose only member fails when consulted.\<close>

theorem C1_valid_url_returned_unchanged_witness:
  "(case helper_url_Parse go_unix ''ssh://git@git.example.com:2222/hashicorp/foo.git'' of
      Inl err \<Rightarrow> False
    | Inr u \<Rightarrow> Scheme u = ''ssh'' \<and> Host u = ''git.example.com:2222'')
   \<and> Detect go_unix ''git::ssh://git@git.example.com:2222/hashicorp/foo.git'' ''/pwd''
        [failing_Detector]
       = (''git::ssh://git@git.example.com:2222/hashicorp/foo.git'', None)
   \<and> CtxDetect go_unix ''git::ssh://git@git.example.com:2222/hashicorp/foo.git'' ''/pwd'' ''''
        [failing_CtxDetector]
       = (''git::ssh://git@git.example.com:2222/hashicorp/foo.git'', None)"
proof -
  have p: "helper_url_Parse go_unix
             (fst (SourceDirSubdir go_unix
                (snd (getForcedGetter go_unix
                   ''git::ssh://git@git.example.com:2222/hashicorp/foo.git''))))
           = Inr \<lparr>Scheme = ''ssh'', Opaque = '''',
                  User = Some \<lparr>username = ''git'', password = '''', passwordSet = False\<rparr>,
                  Host = ''git.example.com:2222'', Path = ''/hashicorp/foo.git'',
                  RawPath = '''', ForceQuery = False, RawQuery = '''', Fragment = ''''\<rparr>"
    by code_simp
  have b: "fst (SourceDirSubdir go_unix
                (snd (getForcedGetter go_unix
                   ''git::ssh://git@git.example.com:2222/hashicorp/foo.git'')))
           = ''ssh://git@git.example.com:2222/hashicorp/foo.git''"
    by code_simp
  from C1_valid_url_returned_unchanged [OF p] p [unfolded b] show ?thesis by simp
qed

subsection \<open>The Git detector\<close>

text \<open>
  C2. \<open>GitDetector.Detect\<close>: the empty address is declined without error; an
  address on which \<open>detectSSH\<close> returns a URL whose username is \<open>git\<close> is
  committed as \<open>git::\<close> followed by the serialised URL; one whose username is
  anything else is declined without error. The last conjunct is the spec's example,
  evaluated with the helpers of \<open>go_unix\<close>, for every \<open>pwd\<close>.
\<close>

theorem C2_git_detector:
  shows "GitDetector_Detect X '''' pwd = ('''', False, None)
       \<and> (src \<noteq> '''' \<and> detectSSH X src = Inr (Some u) \<and> Username (User u) = ''git'' \<longrightarrow>
            GitDetector_Detect X src pwd = (''git::'' @ URL_String X u, True, None))
       \<and> (src \<noteq> '''' \<and> detectSSH X src = Inr (Some u) \<and> Username (User u) \<noteq> ''git'' \<longrightarrow>
            GitDetector_Detect X src pwd = ('''', False, None))
       \<and> Detect go_unix ''git@github.com:hashicorp/foo.git'' pwd [GitDetector_Detect go_unix]
           = (''git::ssh://git@github.com/hashicorp/foo.git'', None)"
proof -
  have "Detect go_unix ''git@github.com:hashicorp/foo.git'' pwd [GitDetector_Detect go_unix]
           = (''git::ssh://git@github.com/hashicorp/foo.git'', None)"
    by code_simp
  then show ?thesis by (simp add: GitDetector_Detect_def)
qed

theorem C2_git_detector_witness:
  "GitDetector_Detect go_unix ''git@github.com:hashicorp/foo.git'' ''/pwd''
     = (''git::ssh://git@github.com/hashicorp/foo.git'', True, None)
   \<and> GitDetector_Detect go_unix ''hg@example.com:repo'' ''/pwd'' = ('''', False, None)
   \<and> GitDetector_Detect go_unix '''' ''/pwd'' = ('''', False, None)"
proof -
  let ?u = "empty_URL\<lparr>Scheme := ''ssh'',
              User := Some \<lparr>username = ''git'', password = '''', passwordSet = False\<rparr>,
              Host := ''github.com'', Path := ''hashicorp/foo.git''\<rparr>"
  let ?v = "empty_URL\<lparr>Scheme := ''ssh'',
              User := Some \<lparr>username = ''hg'', password = '''', passwordSet = False\<rparr>,
              Host := ''example.com'', Path := ''repo''\<rparr>"
  have s1: "detectSSH go_unix ''git@github.com:hashicorp/foo.git'' = Inr (Some ?u)"
    and n1: "Username (User ?u) = ''git''"
    and t1: "URL_String go_unix ?u = ''ssh://git@github.com/hashicorp/foo.git''"
    and s2: "detectSSH go_unix ''hg@example.com:repo'' = Inr (Some ?v)"
    and n2: "Username (User ?v) \<noteq> ''git''"
    by code_simp+
  from C2_git_detector [of go_unix "''/pwd''" "''git@github.com:hashicorp/foo.git''" ?u] s1 n1 t1
  have 1: "GitDetector_Detect go_unix ''git@github.com:hashicorp/foo.git'' ''/pwd''
     = (''git::ssh://git@github.com/hashicorp/foo.git'', True, None)"
    by simp
  from C2_git_detector [of go_unix "''/pwd''" "''hg@example.com:repo''" ?v] s2 n2
  have 2: "GitDetector_Detect go_unix ''hg@example.com:repo'' ''/pwd'' = ('''', False, None)"
    and 3: "GitDetector_Detect go_unix '''' ''/pwd'' = ('''', False, None)"
    by simp_all
  from 1 2 3 show ?thesis by simp
qed

subsection \<open>The forced-Git filepath resolver\<close>

text \<open>
  C3. For a relative filepath-shaped address under the force token \<open>git\<close>: a
  non-empty \<open>srcResolveFrom\<close> is the base the address is joined to, and an error
  when it is not absolute; with \<open>srcResolveFrom\<close> empty, a non-empty \<open>pwd\<close> is the
  base, and an error when it is not absolute; with both empty the call is an error.
  An absolute address \<open>asrc\<close> goes to the second half of the function as it is,
  whatever \<open>pwd\<close> and \<open>srcResolveFrom\<close> are. The error texts are those of the
  source.
\<close>

theorem C3_resolution_base:
  assumes git: "force = ''git''"
      and rel: "src \<noteq> ''''" "\<not> filepath_IsAbs X src" "isLocalSourceAddr src"
  shows "(srcResolveFrom \<noteq> '''' \<and> filepath_IsAbs X srcResolveFrom \<longrightarrow>
            detectGitForceFilepath X src pwd force srcResolveFrom
            = detectGitForceFilepath_emit X ''git'' (filepath_Join X [srcResolveFrom, src]))
       \<and> (srcResolveFrom \<noteq> '''' \<and> \<not> filepath_IsAbs X srcResolveFrom \<longrightarrow>
            detectGitForceFilepath X src pwd force srcResolveFrom
            = ('''', False,
               Some (Error (''unable to resolve 'git::' forced filepath ('' @ src
                            @ ''); provided srcResolveFrom filepath ('' @ srcResolveFrom
                            @ '') is not rooted''))))
       \<and> (srcResolveFrom = '''' \<and> pwd \<noteq> '''' \<and> filepath_IsAbs X pwd \<longrightarrow>
            detectGitForceFilepath X src pwd force srcResolveFrom
            = detectGitForceFilepath_emit X ''git'' (filepath_Join X [pwd, src]))
       \<and> (srcResolveFrom = '''' \<and> pwd \<noteq> '''' \<and> \<not> filepath_IsAbs X pwd \<longrightarrow>
            detectGitForceFilepath X src pwd force srcResolveFrom
            = ('''', False,
               Some (Error (''unable to resolve 'git::' forced filepath ('' @ pwd
                            @ ''); provided pwd filepath ('' @ srcResolveFrom
                            @ '') is not rooted''))))
       \<and> (srcResolveFrom = '''' \<and> pwd = '''' \<longrightarrow>
            detectGitForceFilepath X src pwd force srcResolveFrom
            = ('''', False,
               Some (Error (''unable to resolve 'git::' force filepath ('' @ src
                            @ ''); neither pwd nor srcResolveFrom param was provided''))))
       \<and> (asrc \<noteq> '''' \<and> filepath_IsAbs X asrc \<longrightarrow>
            detectGitForceFilepath X asrc pwd force srcResolveFrom
            = detectGitForceFilepath_emit X ''git'' asrc)"
  using assms by (simp add: detectGitForceFilepath_def)

theorem C3_resolution_base_witness:
  "detectGitForceFilepath go_unix ''./somedir'' ''/pwd'' ''git'' ''/base''
     = (''git::file:///base/somedir'', True, None)
   \<and> detectGitForceFilepath go_unix ''./somedir'' '''' ''git'' ''/base''
     = (''git::file:///base/somedir'', True, None)
   \<and> detectGitForceFilepath go_unix ''./somedir'' ''/pwd'' ''git'' ''base''
     = ('''', False,
        Some (Error (''unable to resolve 'git::' forced filepath (./somedir); ''
                     @ ''provided srcResolveFrom filepath (base) is not rooted'')))
   \<and> detectGitForceFilepath go_unix ''./somedir'' ''/pwd'' ''git'' ''''
     = (''git::file:///pwd/somedir'', True, None)
   \<and> detectGitForceFilepath go_unix ''./somedir'' ''pwd'' ''git'' ''''
     = ('''', False,
        Some (Error (''unable to resolve 'git::' forced filepath (pwd); ''
                     @ ''provided pwd filepath () is not rooted'')))
   \<and> detectGitForceFilepath go_unix ''./somedir'' '''' ''git'' ''''
     = ('''', False,
        Some (Error (''unable to resolve 'git::' force filepath (./somedir); ''
                     @ ''neither pwd nor srcResolveFrom param was provided'')))
   \<and> detectGitForceFilepath go_unix ''/somedir'' ''pwd'' ''git'' ''base''
     = (''git::file:///somedir'', True, None)"
proof -
  have rel: "''./somedir'' \<noteq> ''''" "\<not> filepath_IsAbs go_unix ''./somedir''"
      "isLocalSourceAddr ''./somedir''"
    by code_simp+
  note C = C3_resolution_base [OF refl rel, where asrc = "''/somedir''"]
  have a: "filepath_IsAbs go_unix ''/base''" "\<not> filepath_IsAbs go_unix ''base''"
      "filepath_IsAbs go_unix ''/pwd''" "\<not> filepath_IsAbs go_unix ''pwd''"
      "filepath_IsAbs go_unix ''/somedir''"
    by code_simp+
  have e: "detectGitForceFilepath_emit go_unix ''git''
             (filepath_Join go_unix [''/base'', ''./somedir''])
           = (''git::file:///base/somedir'', True, None)"
      "detectGitForceFilepath_emit go_unix ''git''
             (filepath_Join go_unix [''/pwd'', ''./somedir''])
           = (''git::file:///pwd/somedir'', True, None)"
      "detectGitForceFilepath_emit go_unix ''git'' ''/somedir''
           = (''git::file:///somedir'', True, None)"
    by code_simp+
  from C [of "''/base''" "''/pwd''"] C [of "''/base''" "''''"] C [of "''base''" "''/pwd''"]
       C [of "''''" "''/pwd''"] C [of "''''" "''pwd''"] C [of "''''" "''''"]
       C [of "''base''" "''pwd''"]
  show ?thesis
    by (simp add: a e)
qed

lemma isLocalSourceAddr_iff:
  "isLocalSourceAddr addr \<longleftrightarrow>
     addr = ''.'' \<or> addr = ''..''
     \<or> strings_HasPrefix addr ''./'' \<or> strings_HasPrefix addr ''../''
     \<or> strings_HasPrefix addr [CHR ''.'', CHR 0x5C]
     \<or> strings_HasPrefix addr [CHR ''.'', CHR ''.'', CHR 0x5C]"
  by (auto simp: isLocalSourceAddr_def localExactMatches_def localSourcePrefixes_def)

text \<open>
  C4. \<open>detectGitForceFilepath\<close> declines, without error and with an empty
  string, when the force token is not exactly \<open>git\<close>, or the address is empty, or
  the address is not absolute, is neither \<open>.\<close> nor \<open>..\<close>, and begins with none of
  \<open>./\<close>, \<open>../\<close> and their backslash forms.
\<close>

theorem C4_not_for_us_declined:
  assumes "force \<noteq> ''git'' \<or> src = ''''
           \<or> (\<not> filepath_IsAbs X src \<and> src \<noteq> ''.'' \<and> src \<noteq> ''..''
               \<and> \<not> strings_HasPrefix src ''./'' \<and> \<not> strings_HasPrefix src ''../''
               \<and> \<not> strings_HasPrefix src [CHR ''.'', CHR 0x5C]
               \<and> \<not> strings_HasPrefix src [CHR ''.'', CHR ''.'', CHR 0x5C])"
  shows "detectGitForceFilepath X src pwd force srcResolveFrom = ('''', False, None)"
  using assms by (auto simp: detectGitForceFilepath_def isLocalSourceAddr_iff)

text \<open>The spec's \<open>foo/bar\<close>, a force token with its colons left on, and the empty
  address.\<close>

theorem C4_not_for_us_declined_witness:
  "detectGitForceFilepath go_unix ''foo/bar'' ''/pwd'' ''git'' '''' = ('''', False, None)
   \<and> detectGitForceFilepath go_unix ''./somedir'' ''/pwd'' ''git::'' '''' = ('''', False, None)
   \<and> detectGitForceFilepath go_unix '''' ''/pwd'' ''git'' '''' = ('''', False, None)"
proof -
  have a: "\<not> filepath_IsAbs go_unix ''foo/bar''" by code_simp
  have b: "\<not> strings_HasPrefix ''foo/bar'' ''./'' \<and> \<not> strings_HasPrefix ''foo/bar'' ''../''
     \<and> \<not> strings_HasPrefix ''foo/bar'' [CHR ''.'', CHR 0x5C]
     \<and> \<not> strings_HasPrefix ''foo/bar'' [CHR ''.'', CHR ''.'', CHR 0x5C]" by code_simp
  have 1: "detectGitForceFilepath go_unix ''foo/bar'' ''/pwd'' ''git'' '''' = ('''', False, None)"
    by (rule C4_not_for_us_declined) (use a b in simp)
  have 2: "detectGitForceFilepath go_unix ''./somedir'' ''/pwd'' ''git::'' ''''
           = ('''', False, None)"
    by (rule C4_not_for_us_declined) simp
  have 3: "detectGitForceFilepath go_unix '''' ''/pwd'' ''git'' '''' = ('''', False, None)"
    by (rule C4_not_for_us_declined) simp
  from 1 2 3 show ?thesis by simp
qed

subsection \<open>The file URL of the forced-Git filepath resolver\<close>

lemma url_split_Cons:
  "c \<noteq> sep \<Longrightarrow>
     url_split (c # s) sep b = (c # fst (url_split s sep b), snd (url_split s sep b))"
  by (auto simp: url_split_def strings_HasPrefix_def split: option.splits)

lemma unescape_slash:
  "unescape (CHR ''/'' # t) encodePath = Inr p \<Longrightarrow> \<exists>q. p = CHR ''/'' # q"
  by (auto split: sum.splits)

lemma getScheme_file: "getScheme (''file:'' @ t) = Inr (''file'', t)"
  by (simp add: getScheme_def is_alpha_def is_digit_def)

lemma parse_query_slashes:
  "\<exists>url t2. parse_query ''file'' (''///'' @ t) = (url, ''///'' @ t2)
     \<and> Scheme url = ''file'' \<and> Opaque url = '''' \<and> User url = None \<and> Host url = ''''"
proof (cases "strings_HasSuffix (''///'' @ t) ''?'' \<and> count_list (''///'' @ t) (CHR ''?'') = 1")
  case True
  then have "t \<noteq> []" by (auto simp: strings_HasSuffix_def strings_HasPrefix_def)
  then have "butlast (''///'' @ t) = ''///'' @ butlast t" by (simp add: butlast_append)
  with True show ?thesis
    by (simp add: parse_query_def empty_URL_def strings_ToLower_def)
next
  case False
  then show ?thesis
    by (simp add: parse_query_def empty_URL_def strings_ToLower_def url_split_Cons)
qed

lemma parseAuthority_empty: "parseAuthority '''' = Inr (None, '''')"
  by (simp add: parseAuthority_def parseHost_def strings_LastIndexByte_def strings_HasPrefix_def)

lemma setPath_slash:
  assumes "setPath url (CHR ''/'' # t) = Inr u"
      and "Scheme url = ''file''" "Opaque url = ''''" "User url = None" "Host url = ''''"
  shows "file_shaped u"
  using assms unescape_slash [of t]
  by (auto simp: setPath_def file_shaped_def split: sum.splits if_splits)

lemma parse_file:
  assumes "parse (''file:///'' @ t) = Inr u"
  shows "file_shaped u"
proof -
  obtain url t2 where q: "parse_query ''file'' (''///'' @ t) = (url, ''///'' @ t2)"
    and u: "Scheme url = ''file''" "Opaque url = ''''" "User url = None" "Host url = ''''"
    using parse_query_slashes [of t] by blast
  have g: "getScheme (''file:///'' @ t) = Inr (''file'', ''///'' @ t)"
    using getScheme_file [of "''///'' @ t"] by simp
  have sp: "url_split (CHR ''/'' # t2) (CHR ''/'') False = ('''', CHR ''/'' # t2)"
    by (simp add: url_split_def strings_HasPrefix_def)
  note g' = g [simplified] and q' = q [simplified]
  from assms have "setPath (url\<lparr>User := None, Host := ''''\<rparr>) (CHR ''/'' # t2) = Inr u"
    by (simp add: parse_def g' q' u sp parseAuthority_empty strings_HasPrefix_def
             split: if_splits)
  then show ?thesis
    by (rule setPath_slash) (simp_all add: u)
qed

lemma url_Parse_file:
  assumes "url_Parse (''file:///'' @ t) = Inr u"
  shows "file_shaped u"
proof -
  have "\<exists>t1. fst (url_split (''file:///'' @ t) (CHR ''#'') True) = ''file:///'' @ t1"
    by (simp add: url_split_Cons)
  then obtain t1
    where t1: "fst (url_split (''file:///'' @ t) (CHR ''#'') True) = ''file:///'' @ t1"
    by blast
  from assms obtain u0 where p: "parse (''file:///'' @ t1) = Inr u0"
    and u: "u = u0 \<or> (\<exists>f. u = u0\<lparr>Fragment := f\<rparr>)"
    by (auto simp: url_Parse_def Let_def t1 simp del: append.simps
             split: sum.splits if_splits)
  from parse_file [OF p] u show ?thesis
    by (auto simp: file_shaped_def)
qed

lemma EscapedPath_file:
  assumes "file_shaped u"
  shows "\<exists>p. EscapedPath u = CHR ''/'' # p"
proof -
  from assms obtain p where p: "Path u = CHR ''/'' # p" by (auto simp: file_shaped_def)
  have "shouldEscape (CHR ''/'') encodePath = False"
    by (simp add: shouldEscape_def is_alpha_def is_digit_def reserved_chars_def)
  then have e: "\<exists>q. escape (Path u) encodePath = CHR ''/'' # q"
    by (simp add: p escape_def)
  from assms e show ?thesis
    by (auto simp: EscapedPath_def file_shaped_def p)
qed

lemma url_String_file:
  assumes "file_shaped u"
  shows "\<exists>rest. url_String u = ''file:///'' @ rest"
proof -
  from EscapedPath_file [OF assms] obtain p where p: "EscapedPath u = CHR ''/'' # p" by blast
  from assms have a: "String_authority u = ''//''"
    by (auto simp: String_authority_def file_shaped_def)
  have sp: "String_path u (''file:'' @ ''//'') = ''file:///'' @ p"
    by (simp add: String_path_def Let_def p)
  from assms have "url_String u = (''file:///'' @ p)
      @ (if ForceQuery u \<or> RawQuery u \<noteq> '''' then ''?'' @ RawQuery u else '''')
      @ (if Fragment u \<noteq> '''' then ''#'' @ escape (Fragment u) encodeFragment else '''')"
    using sp by (simp add: url_String_def Let_def a file_shaped_def)
  then show ?thesis by simp
qed

lemma has_slash_prefix: "strings_HasPrefix c ''/'' \<Longrightarrow> \<exists>t. c = ''/'' @ t"
  by (cases c) (auto simp: strings_HasPrefix_def)

text \<open>Whatever the externals are, the string handed to \<open>url.Parse\<close> begins with
  \<open>file:///\<close>.\<close>

lemma emit_parsed:
  assumes "detectGitForceFilepath_emit X force p = (uri, True, None)"
  shows "\<exists>t u. net_url_Parse X (''file://'' @ ''/'' @ t) = Inr u
               \<and> uri = force @ ''::'' @ URL_String X u"
proof (cases "strings_HasPrefix (filepath_ToSlash X (filepath_Clean X p)) ''/''")
  case True
  from has_slash_prefix [OF True] obtain t
    where t: "filepath_ToSlash X (filepath_Clean X p) = ''/'' @ t" by blast
  from assms True show ?thesis
    unfolding detectGitForceFilepath_emit_def Let_def t
    by (auto simp del: append.simps split: sum.splits)
next
  case False
  with assms show ?thesis
    unfolding detectGitForceFilepath_emit_def Let_def
    by (auto simp del: append.simps split: sum.splits)
qed

lemma emit_unix_file_uri:
  assumes "detectGitForceFilepath_emit go_unix force p = (uri, True, None)"
  shows "\<exists>rest. uri = force @ ''::file:///'' @ rest"
proof -
  from emit_parsed [OF assms] obtain t u
    where u: "url_Parse (''file:///'' @ t) = Inr u" and r: "uri = force @ ''::'' @ url_String u"
    by (auto simp: go_unix_def)
  from url_String_file [OF url_Parse_file [OF u]] r show ?thesis by auto
qed

lemma detectGitForceFilepath_unix_file_uri:
  assumes "detectGitForceFilepath go_unix src pwd force srcResolveFrom = (uri, True, None)"
  shows "strings_HasPrefix uri ''git::file:///''"
proof -
  from assms have f: "force = ''git''"
    by (auto simp: detectGitForceFilepath_def split: if_splits)
  from assms obtain p where "detectGitForceFilepath_emit go_unix ''git'' p = (uri, True, None)"
    by (auto simp: detectGitForceFilepath_def f split: if_splits)
  from emit_unix_file_uri [OF this] show ?thesis
    by (auto simp: strings_HasPrefix_def)
qed

text \<open>
  C5. With the Unix externals, every successful run of \<open>detectGitForceFilepath\<close>
  returns a string that begins with \<open>git::file:///\<close> (first conjunct). The rest
  of the claim fails: the resolved path is cleaned with its query text still
  attached, so a query that \<open>filepath.Clean\<close> changes (one that holds \<open>//\<close>, a
  \<open>.\<close> or \<open>..\<close> element, or a slash at its end) is rewritten as if it were
  path. On \<open>./repo?ref=a/../b\<close> the query and the last path element are gone; on
  \<open>./repo?sshkey=MIIE//8A\<close> the query loses a slash. A query that cleaning
  leaves as it is, here \<open>ref=v1.2.3\<close>, is kept as the URL's query (last conjunct).
\<close>

theorem C5_file_uri_prefix_and_query_through_cleaning:
  "(detectGitForceFilepath go_unix src pwd force srcResolveFrom = (uri, True, None)
      \<longrightarrow> strings_HasPrefix uri ''git::file:///'')
   \<and> detectGitForceFilepath go_unix ''./repo?ref=a/../b'' ''/pwd'' ''git'' ''''
     = (''git::file:///pwd/b'', True, None)
   \<and> detectGitForceFilepath go_unix ''./repo?sshkey=MIIE//8A'' ''/pwd'' ''git'' ''''
     = (''git::file:///pwd/repo?sshkey=MIIE/8A'', True, None)
   \<and> CtxDetect go_unix ''git::./repo?ref=a/../b'' ''/pwd'' '''' [GitCtxDetector_CtxDetect go_unix]
     = (''git::file:///pwd/b'', None)
   \<and> detectGitForceFilepath go_unix ''./repo?ref=v1.2.3'' ''/pwd'' ''git'' ''''
     = (''git::file:///pwd/repo?ref=v1.2.3'', True, None)"
proof -
  have "detectGitForceFilepath go_unix ''./repo?ref=a/../b'' ''/pwd'' ''git'' ''''
     = (''git::file:///pwd/b'', True, None)"
    and "detectGitForceFilepath go_unix ''./repo?sshkey=MIIE//8A'' ''/pwd'' ''git'' ''''
     = (''git::file:///pwd/repo?sshkey=MIIE/8A'', True, None)"
    and "CtxDetect go_unix ''git::./repo?ref=a/../b'' ''/pwd'' ''''
           [GitCtxDetector_CtxDetect go_unix]
     = (''git::file:///pwd/b'', None)"
    and "detectGitForceFilepath go_unix ''./repo?ref=v1.2.3'' ''/pwd'' ''git'' ''''
     = (''git::file:///pwd/repo?ref=v1.2.3'', True, None)"
    by code_simp+
  then show ?thesis
    using detectGitForceFilepath_unix_file_uri [of src pwd force srcResolveFrom uri]
    by (simp del: append.simps)
qed

text \<open>A relative address of the package's tests, resolved against \<open>/a/b\<close>.\<close>

theorem C5_file_uri_prefix_and_query_through_cleaning_witness:
  "detectGitForceFilepath go_unix ''../some-parent-dir/two//three?ref=v1.2.3'' ''/a/b'' ''git'' ''''
     = (''git::file:///a/some-parent-dir/two/three?ref=v1.2.3'', True, None)
   \<and> strings_HasPrefix ''git::file:///a/some-parent-dir/two/three?ref=v1.2.3'' ''git::file:///''"
proof -
  have e: "detectGitForceFilepath go_unix ''../some-parent-dir/two//three?ref=v1.2.3'' ''/a/b''
             ''git'' ''''
     = (''git::file:///a/some-parent-dir/two/three?ref=v1.2.3'', True, None)"
    by code_simp
  from C5_file_uri_prefix_and_query_through_cleaning
         [where src = "''../some-parent-dir/two//three?ref=v1.2.3''" and pwd = "''/a/b''"
            and force = "''git''" and srcResolveFrom = "''''"
            and uri = "''git::file:///a/some-parent-dir/two/three?ref=v1.2.3''"] e
  show ?thesis by (simp del: append.simps)
qed

subsection \<open>The dispatchers on a winning match\<close>

lemma Detect_not_url:
  assumes "\<forall>u. helper_url_Parse X (fst (SourceDirSubdir X (snd (getForcedGetter X src)))) = Inr u
               \<longrightarrow> Scheme u = ''''"
  shows "Detect X src pwd ds =
         Detect_range X src (fst (SourceDirSubdir X (snd (getForcedGetter X src)))) pwd
           (fst (getForcedGetter X src)) (snd (SourceDirSubdir X (snd (getForcedGetter X src)))) ds"
  using assms by (simp add: Detect_def Let_def split: sum.splits)

lemma CtxDetect_not_url:
  assumes "\<forall>u. helper_url_Parse X (fst (SourceDirSubdir X (snd (getForcedGetter X src)))) = Inr u
               \<longrightarrow> Scheme u = ''''"
  shows "CtxDetect X src pwd rf cds =
         CtxDetect_range X src (fst (SourceDirSubdir X (snd (getForcedGetter X src)))) pwd
           (fst (getForcedGetter X src)) (snd (SourceDirSubdir X (snd (getForcedGetter X src))))
           rf cds"
  using assms by (simp add: CtxDetect_def Let_def split: sum.splits)

lemma handleDetected_failed:
  "snd (handleDetected X detected getForce subDir) \<noteq> None
   \<Longrightarrow> fst (handleDetected X detected getForce subDir) = ''''"
  by (simp add: handleDetected_def Let_def split: sum.splits if_splits)

lemma Detect_range_handleDetected:
  assumes "\<forall>d' \<in> set pre. fst (snd (d' getSrc pwd)) = False \<and> snd (snd (d' getSrc pwd)) = None"
      and "d getSrc pwd = (detected, True, None)"
  shows "Detect_range X src getSrc pwd getForce subDir (pre @ d # post)
         = handleDetected X detected getForce subDir"
  using assms handleDetected_failed [of X detected getForce subDir]
  by (induction pre) (auto split: prod.splits)

lemma CtxDetect_range_handleDetected:
  assumes "\<forall>d' \<in> set pre. fst (snd (d' getSrc pwd getForce subDir rf)) = False
                         \<and> snd (snd (d' getSrc pwd getForce subDir rf)) = None"
      and "d getSrc pwd getForce subDir rf = (detected, True, None)"
  shows "CtxDetect_range X src getSrc pwd getForce subDir rf (pre @ d # post)
         = handleDetected X detected getForce subDir"
  using assms handleDetected_failed [of X detected getForce subDir]
  by (induction pre) (auto split: prod.splits)

lemma Detect_handleDetected:
  assumes "\<forall>u. helper_url_Parse X (fst (SourceDirSubdir X (snd (getForcedGetter X src)))) = Inr u
               \<longrightarrow> Scheme u = ''''"
      and "\<forall>d' \<in> set pre.
             fst (snd (d' (fst (SourceDirSubdir X (snd (getForcedGetter X src)))) pwd)) = False
             \<and> snd (snd (d' (fst (SourceDirSubdir X (snd (getForcedGetter X src)))) pwd)) = None"
      and "d (fst (SourceDirSubdir X (snd (getForcedGetter X src)))) pwd = (detected, True, None)"
  shows "Detect X src pwd (pre @ d # post)
         = handleDetected X detected (fst (getForcedGetter X src))
             (snd (SourceDirSubdir X (snd (getForcedGetter X src))))"
  unfolding Detect_not_url [OF assms(1)]
  using assms(2,3) by (simp add: Detect_range_handleDetected)

lemma CtxDetect_handleDetected:
  assumes "\<forall>u. helper_url_Parse X (fst (SourceDirSubdir X (snd (getForcedGetter X src)))) = Inr u
               \<longrightarrow> Scheme u = ''''"
      and "\<forall>d' \<in> set pre.
             fst (snd (d' (fst (SourceDirSubdir X (snd (getForcedGetter X src)))) pwd
                          (fst (getForcedGetter X src))
                          (snd (SourceDirSubdir X (snd (getForcedGetter X src)))) rf)) = False
             \<and> snd (snd (d' (fst (SourceDirSubdir X (snd (getForcedGetter X src)))) pwd
                          (fst (getForcedGetter X src))
                          (snd (SourceDirSubdir X (snd (getForcedGetter X src)))) rf)) = None"
      and "d (fst (SourceDirSubdir X (snd (getForcedGetter X src)))) pwd
             (fst (getForcedGetter X src))
             (snd (SourceDirSubdir X (snd (getForcedGetter X src)))) rf = (detected, True, None)"
  shows "CtxDetect X src pwd rf (pre @ d # post)
         = handleDetected X detected (fst (getForcedGetter X src))
             (snd (SourceDirSubdir X (snd (getForcedGetter X src))))"
  unfolding CtxDetect_not_url [OF assms(1)]
  using assms(2,3) by (simp add: CtxDetect_range_handleDetected)

lemma handleDetected_success:
  assumes "handleDetected X detected srcGetForce subDir = (r, None)"
      and "base = fst (SourceDirSubdir X (snd (getForcedGetter X detected)))"
      and "merged = (if snd (SourceDirSubdir X (snd (getForcedGetter X detected))) \<noteq> '''' then
                       (if subDir \<noteq> '''' then
                          filepath_Join X
                            [snd (SourceDirSubdir X (snd (getForcedGetter X detected))), subDir]
                        else snd (SourceDirSubdir X (snd (getForcedGetter X detected))))
                     else subDir)"
      and "token = (if srcGetForce \<noteq> '''' then srcGetForce @ ''::''
                    else if fst (getForcedGetter X detected) \<noteq> ''''
                         then fst (getForcedGetter X detected) @ ''::''
                    else '''')"
  shows "(merged = '''' \<and> r = token @ base)
         \<or> (merged \<noteq> ''''
             \<and> (\<exists>u. helper_url_Parse X base = Inr u
                      \<and> r = token @ URL_String X (u\<lparr>Path := Path u @ ''//'' @ merged,
                                                       RawPath := Path u @ ''//'' @ merged\<rparr>)))"
  using assms
  by (auto simp: handleDetected_def Let_def split: sum.splits if_splits)

subsection \<open>Plain SSH addresses through the Git detectors\<close>

lemma strings_Index_append_notin:
  "c \<notin> set a \<Longrightarrow>
     strings_Index (a @ b) (c # ps) = map_option (\<lambda>i. length a + i) (strings_Index b (c # ps))"
proof (induction a)
  case Nil
  then show ?case by (simp add: option.map_ident)
next
  case (Cons x a)
  then have "\<not> strings_HasPrefix (x # a @ b) (c # ps)"
    by (auto simp: strings_HasPrefix_def)
  with Cons show ?case
    by (simp add: option.map_comp comp_def)
qed

lemma strings_Index_notin: "c \<notin> set s \<Longrightarrow> strings_Index s (c # ps) = None"
  using strings_Index_append_notin [of c s "[]" ps] by simp

lemma plain_byte_not:
  assumes "plain_byte c"
  shows "c \<noteq> CHR '':''" "c \<noteq> CHR ''/''" "c \<noteq> CHR ''@''" "c \<noteq> CHR ''?''" "c \<noteq> CHR ''#''"
        "c \<noteq> CHR ''%''" "c \<noteq> CHR ''+''" "c \<noteq> CHR ''*''" "c \<noteq> CHR ''[''"
        "\<not> (of_char c :: nat) < 32" "(of_char c :: nat) \<noteq> 127"
  using assms by (auto simp: plain_byte_def is_alpha_def is_digit_def)

lemma plain_byte_not_escaped:
  "plain_byte c \<Longrightarrow> \<not> shouldEscape c mode"
  by (auto simp: plain_byte_def shouldEscape_def)

lemma slash_not_escaped: "\<not> shouldEscape (CHR ''/'') encodePath"
  by (simp add: shouldEscape_def is_alpha_def is_digit_def reserved_chars_def)

lemma escape_id: "list_all (\<lambda>c. \<not> shouldEscape c mode) s \<Longrightarrow> escape s mode = s"
  by (induction s) (auto simp: escape_def)

lemma unescape_id:
  "list_all (\<lambda>c. c \<noteq> CHR ''%'' \<and> c \<noteq> CHR ''+''
                 \<and> (mode = encodeHost \<or> mode = encodeZone \<longrightarrow> \<not> shouldEscape c encodeHost)) s
     \<Longrightarrow> unescape s mode = Inr s"
  by (induction s) auto

lemma not_plain_byte [simp]:
  "\<not> plain_byte (CHR '':'')" "\<not> plain_byte (CHR ''/'')" "\<not> plain_byte (CHR ''@'')"
  "\<not> plain_byte (CHR ''?'')" "\<not> plain_byte (CHR ''#'')" "\<not> plain_byte (CHR ''%'')"
  "\<not> plain_byte (CHR ''+'')" "\<not> plain_byte (CHR ''*'')" "\<not> plain_byte (CHR ''['')"
  by (simp_all add: plain_byte_def is_alpha_def is_digit_def)

lemma plain_host_set:
  assumes "plain_host host"
  shows "CHR '':'' \<notin> set host" "CHR ''/'' \<notin> set host" "CHR ''@'' \<notin> set host"
        "CHR ''?'' \<notin> set host" "CHR ''#'' \<notin> set host" "host \<noteq> ''''"
        "\<not> strings_HasPrefix host ''[''"
        "list_all (\<lambda>c. \<not> shouldEscape c mode) host"
        "\<not> stringContainsCTLByte host"
        "list_all (\<lambda>c. c \<noteq> CHR ''%'' \<and> c \<noteq> CHR ''+''
                 \<and> (m = encodeHost \<or> m = encodeZone \<longrightarrow> \<not> shouldEscape c encodeHost)) host"
  using assms plain_byte_not(10,11) plain_byte_not_escaped
  by (auto simp: plain_host_def list_all_iff list_ex_iff stringContainsCTLByte_def
                 strings_HasPrefix_def neq_Nil_conv)

lemma plain_path_set:
  assumes "plain_path path"
  shows "CHR '':'' \<notin> set path" "CHR ''@'' \<notin> set path"
        "CHR ''?'' \<notin> set path" "CHR ''#'' \<notin> set path" "path \<noteq> ''''"
        "\<not> strings_HasPrefix path ''/''" "strings_Index path ''//'' = None"
        "path \<noteq> ''*''"
        "list_all (\<lambda>c. \<not> shouldEscape c encodePath) path"
        "\<not> stringContainsCTLByte path"
        "list_all (\<lambda>c. c \<noteq> CHR ''%'' \<and> c \<noteq> CHR ''+'') path"
  using assms plain_byte_not(10,11) plain_byte_not_escaped slash_not_escaped
  by (auto simp: plain_path_def list_all_iff list_ex_iff stringContainsCTLByte_def
                 strings_HasPrefix_def)

lemma getForcedGetter_spec_ssh_src:
  assumes "plain_host host" "plain_path path"
  shows "getForcedGetter_spec (''git@'' @ host @ '':'' @ path) = ('''', ''git@'' @ host @ '':'' @ path)"
proof -
  have a: "CHR '':'' \<notin> set (''git@'' @ host)"
    using plain_host_set(1) [OF assms(1)] by simp
  have "\<not> strings_HasPrefix (CHR '':'' # path) ''::''"
    using plain_path_set(1,5) [OF assms(2)] by (cases path) (auto simp: strings_HasPrefix_def)
  then have b: "strings_Index (CHR '':'' # path) ''::'' = None"
    using strings_Index_notin [OF plain_path_set(1) [OF assms(2)], of "'':''"] by simp
  have "strings_Index ((''git@'' @ host) @ (CHR '':'' # path)) ''::'' = None"
    using strings_Index_append_notin [OF a, of "CHR '':'' # path" "'':''"] b by simp
  then show ?thesis
    by (simp add: getForcedGetter_spec_def)
qed

lemma SourceDirSubdir_spec_ssh_src:
  assumes "plain_host host" "plain_path path"
  shows "SourceDirSubdir_spec (''git@'' @ host @ '':'' @ path) = (''git@'' @ host @ '':'' @ path, '''')"
proof -
  let ?src = "''git@'' @ host @ '':'' @ path"
  have q: "strings_Index ?src ''?'' = None"
    using plain_host_set(4) [OF assms(1)] plain_path_set(3) [OF assms(2)]
    by (intro strings_Index_notin) simp
  have a: "CHR '':'' \<notin> set (''git@'' @ host)"
    using plain_host_set(1) [OF assms(1)] by simp
  have "\<not> strings_HasPrefix (CHR '':'' # path) ''://''"
    using plain_path_set(6) [OF assms(2)] by (cases path) (auto simp: strings_HasPrefix_def)
  then have "strings_Index (CHR '':'' # path) ''://'' = None"
    using strings_Index_notin [OF plain_path_set(1) [OF assms(2)], of "''//''"] by simp
  then have c: "strings_Index ?src ''://'' = None"
    using strings_Index_append_notin [OF a, of "CHR '':'' # path" "''//''"] by simp
  have s: "CHR ''/'' \<notin> set (''git@'' @ host @ '':'')"
    using plain_host_set(2) [OF assms(1)] by simp
  have d: "strings_Index ?src ''//'' = None"
    using strings_Index_append_notin [OF s, of path "''/''"] plain_path_set(7) [OF assms(2)]
    by simp
  show ?thesis
    by (simp add: SourceDirSubdir_spec_def Let_def q c d del: append.simps)
qed

lemma setPath_Scheme: "setPath url p = Inr u \<Longrightarrow> Scheme u = Scheme url"
  by (auto simp: setPath_def split: sum.splits if_splits)

lemma parse_query_Scheme: "Scheme (fst (parse_query scheme rest)) = strings_ToLower scheme"
  by (simp add: parse_query_def)

lemma parse_Scheme:
  assumes "parse s = Inr u" "getScheme s = Inr (scheme, rest)"
  shows "Scheme u = strings_ToLower scheme"
proof (cases "s = ''*''")
  case True
  with assms show ?thesis
    by (auto simp: parse_def getScheme_def empty_URL_def is_alpha_def is_digit_def
                   strings_ToLower_def split: if_splits)
next
  case False
  with assms show ?thesis
    by (auto simp: parse_def Let_def parse_query_Scheme dest!: setPath_Scheme
             split: if_splits sum.splits prod.splits)
qed

lemma url_Parse_Scheme:
  assumes "url_Parse s = Inr u" "getScheme (fst (url_split s (CHR ''#'') True)) = Inr (scheme, rest)"
  shows "Scheme u = strings_ToLower scheme"
  using assms
  by (auto simp: url_Parse_def Let_def dest: parse_Scheme split: sum.splits if_splits)

lemma url_split_notin: "c \<notin> set s \<Longrightarrow> url_split s c b = (s, '''')"
  by (simp add: url_split_def strings_Index_notin)

lemma probe_ssh_src:
  assumes "plain_host host" "plain_path path" "url_Parse (''git@'' @ host @ '':'' @ path) = Inr u"
  shows "Scheme u = ''''"
proof -
  have "CHR ''#'' \<notin> set (''git@'' @ host @ '':'' @ path)"
    using plain_host_set(5) [OF assms(1)] plain_path_set(4) [OF assms(2)] by simp
  then have s: "fst (url_split (''git@'' @ host @ '':'' @ path) (CHR ''#'') True)
                = ''git@'' @ host @ '':'' @ path"
    by (simp add: url_split_notin del: append.simps)
  have g: "getScheme (''git@'' @ host @ '':'' @ path) = Inr ('''', ''git@'' @ host @ '':'' @ path)"
    by (simp add: getScheme_def is_alpha_def is_digit_def)
  from url_Parse_Scheme [OF assms(3)] s g show ?thesis
    by (simp add: strings_ToLower_def del: append.simps)
qed

lemma ssh_URL_sel [simp]:
  "Scheme (ssh_URL h p) = ''ssh''" "Opaque (ssh_URL h p) = ''''"
  "User (ssh_URL h p) = Some \<lparr>username = ''git'', password = '''', passwordSet = False\<rparr>"
  "Host (ssh_URL h p) = h" "Path (ssh_URL h p) = p" "RawPath (ssh_URL h p) = ''''"
  "ForceQuery (ssh_URL h p) = False" "RawQuery (ssh_URL h p) = ''''"
  "Fragment (ssh_URL h p) = ''''"
  by (simp_all add: ssh_URL_def empty_URL_def)

lemma detectSSH_spec_ssh_src:
  assumes "plain_host host" "plain_path path"
  shows "detectSSH_spec (''git@'' @ host @ '':'' @ path) = Inr (Some (ssh_URL host path))"
proof -
  let ?src = "''git@'' @ host @ '':'' @ path"
  have p: "\<not> (case url_Parse ?src of Inl err \<Rightarrow> False | Inr u \<Rightarrow> Scheme u \<noteq> '''')"
    using probe_ssh_src [OF assms] by (auto split: sum.splits)
  have c: "strings_Index (host @ '':'' @ path) '':'' = Some (length host)"
    using strings_Index_append_notin [OF plain_host_set(1) [OF assms(1)], of "'':'' @ path" "[]"]
    by (simp add: strings_HasPrefix_def)
  have sp: "url_split path (CHR ''?'') True = (path, '''')"
    using plain_path_set(3) [OF assms(2)] by (rule url_split_notin)
  note c' = c [simplified]
  show ?thesis
    unfolding detectSSH_spec_def
    using p plain_host_set(2,6) [OF assms(1)] plain_path_set(5) [OF assms(2)]
    by (simp add: strings_HasPrefix_def c' sp ssh_URL_def Let_def)
qed

lemma url_String_ssh_URL:
  assumes "plain_host host" "plain_path path"
  shows "url_String (ssh_URL host path) = ''ssh://git@'' @ host @ ''/'' @ path"
proof -
  have h: "escape host encodeHost = host"
    using plain_host_set(8) [OF assms(1)] by (rule escape_id)
  have e: "EscapedPath (ssh_URL host path) = path"
    using plain_path_set(8,9) [OF assms(2)]
    by (simp add: EscapedPath_def escape_id)
  have u: "Userinfo_String \<lparr>username = ''git'', password = '''', passwordSet = False\<rparr> = ''git''"
    by (simp add: Userinfo_String_def escape_def shouldEscape_def is_alpha_def)
  have a: "String_authority (ssh_URL host path) = ''//git@'' @ host"
    using plain_host_set(6) [OF assms(1)]
    by (simp add: String_authority_def u h)
  have hd: "hd path \<noteq> CHR ''/''"
    using plain_path_set(5,6) [OF assms(2)] by (cases path) (auto simp: strings_HasPrefix_def)
  have sp: "String_path (ssh_URL host path) (''ssh:'' @ ''//git@'' @ host)
            = ''ssh://git@'' @ host @ ''/'' @ path"
    using plain_path_set(5) [OF assms(2)] plain_host_set(6) [OF assms(1)] hd
    by (simp add: String_path_def Let_def e)
  show ?thesis
    using sp by (simp add: url_String_def Let_def a)
qed

lemma GitDetector_Detect_ssh_src:
  assumes "plain_host host" "plain_path path"
  shows "GitDetector_Detect go_unix (''git@'' @ host @ '':'' @ path) pwd
         = (''git::ssh://git@'' @ host @ ''/'' @ path, True, None)"
  using detectSSH_spec_ssh_src [OF assms] url_String_ssh_URL [OF assms]
  by (simp add: GitDetector_Detect_def go_unix_def Username_def)

lemma GitCtxDetector_CtxDetect_ssh_src:
  assumes "plain_host host" "plain_path path"
  shows "GitCtxDetector_CtxDetect go_unix (''git@'' @ host @ '':'' @ path) pwd '''' ctxSubDir rf
         = (''git::ssh://git@'' @ host @ ''/'' @ path, True, None)"
  using detectSSH_spec_ssh_src [OF assms] url_String_ssh_URL [OF assms]
  by (simp add: GitCtxDetector_CtxDetect_def go_unix_def Username_def)

lemma getForcedGetter_spec_git: "getForcedGetter_spec (''git::'' @ t) = (''git'', t)"
  by (simp add: getForcedGetter_spec_def strings_HasPrefix_def)

lemma SourceDirSubdir_spec_no_subdir:
  assumes "strings_Index s ''?'' = None" "strings_Index s ''://'' = Some i"
      and "strings_Index (drop (i + 3) s) ''//'' = None"
  shows "SourceDirSubdir_spec s = (s, '''')"
  using assms by (simp add: SourceDirSubdir_spec_def Let_def)

lemma SourceDirSubdir_spec_ssh:
  assumes "plain_host host" "plain_path path"
  shows "SourceDirSubdir_spec (''ssh://git@'' @ host @ ''/'' @ path)
         = (''ssh://git@'' @ host @ ''/'' @ path, '''')"
proof -
  let ?s = "''ssh://git@'' @ host @ ''/'' @ path"
  have q: "strings_Index ?s ''?'' = None"
    using plain_host_set(4) [OF assms(1)] plain_path_set(3) [OF assms(2)]
    by (intro strings_Index_notin) simp
  have c: "strings_Index ?s ''://'' = Some 3"
    by (simp add: strings_HasPrefix_def)
  have s: "CHR ''/'' \<notin> set (''git@'' @ host)"
    using plain_host_set(2) [OF assms(1)] by simp
  have "\<not> strings_HasPrefix (CHR ''/'' # path) ''//''"
    using plain_path_set(6) [OF assms(2)] by (cases path) (auto simp: strings_HasPrefix_def)
  then have "strings_Index (CHR ''/'' # path) ''//'' = None"
    using plain_path_set(7) [OF assms(2)] by simp
  then have "strings_Index ((''git@'' @ host) @ CHR ''/'' # path) ''//'' = None"
    using strings_Index_append_notin [OF s, of "CHR ''/'' # path" "''/''"] by simp
  then have d: "strings_Index (drop (3 + 3) ?s) ''//'' = None" by simp
  show ?thesis
    by (rule SourceDirSubdir_spec_no_subdir [OF q c d])
qed

lemma handleDetected_ssh:
  assumes "plain_host host" "plain_path path"
  shows "handleDetected go_unix (''git::ssh://git@'' @ host @ ''/'' @ path) '''' ''''
         = (''git::ssh://git@'' @ host @ ''/'' @ path, None)"
  using getForcedGetter_spec_git [of "''ssh://git@'' @ host @ ''/'' @ path"]
        SourceDirSubdir_spec_ssh [OF assms]
  by (simp add: handleDetected_def go_unix_def Let_def del: append.simps) simp

lemma go_unix_sel:
  "getForcedGetter go_unix = getForcedGetter_spec" "SourceDirSubdir go_unix = SourceDirSubdir_spec"
  "detectSSH go_unix = detectSSH_spec" "helper_url_Parse go_unix = url_Parse"
  "net_url_Parse go_unix = url_Parse" "URL_String go_unix = url_String"
  by (simp_all add: go_unix_def)

lemma ssh_src_not_url:
  assumes "plain_host host" "plain_path path"
  shows "\<forall>u. helper_url_Parse go_unix
               (fst (SourceDirSubdir go_unix
                  (snd (getForcedGetter go_unix (''git@'' @ host @ '':'' @ path))))) = Inr u
             \<longrightarrow> Scheme u = ''''"
  using probe_ssh_src [OF assms]
  by (simp add: go_unix_sel getForcedGetter_spec_ssh_src [OF assms]
        SourceDirSubdir_spec_ssh_src [OF assms] del: append.simps)

lemma Detect_ssh_src:
  assumes "plain_host host" "plain_path path"
  shows "Detect go_unix (''git@'' @ host @ '':'' @ path) pwd [GitDetector_Detect go_unix]
         = (''git::ssh://git@'' @ host @ ''/'' @ path, None)"
  unfolding Detect_not_url [OF ssh_src_not_url [OF assms]]
  by (simp add: go_unix_sel getForcedGetter_spec_ssh_src [OF assms]
        SourceDirSubdir_spec_ssh_src [OF assms]
        GitDetector_Detect_ssh_src [OF assms] handleDetected_ssh [OF assms] del: append.simps)

lemma CtxDetect_ssh_src:
  assumes "plain_host host" "plain_path path"
  shows "CtxDetect go_unix (''git@'' @ host @ '':'' @ path) pwd rf [GitCtxDetector_CtxDetect go_unix]
         = (''git::ssh://git@'' @ host @ ''/'' @ path, None)"
  unfolding CtxDetect_not_url [OF ssh_src_not_url [OF assms]]
  by (simp add: go_unix_sel getForcedGetter_spec_ssh_src [OF assms]
        SourceDirSubdir_spec_ssh_src [OF assms]
        GitCtxDetector_CtxDetect_ssh_src [OF assms] handleDetected_ssh [OF assms]
        del: append.simps)

lemma strings_LastIndexByte_last:
  "c \<notin> set b \<Longrightarrow> strings_LastIndexByte (a @ c # b) c = Some (length a)"
  using strings_Index_append_notin [of c "rev b" "c # rev a" "[]"]
  by (simp add: strings_LastIndexByte_def strings_HasPrefix_def)

lemma strings_LastIndexByte_notin: "c \<notin> set s \<Longrightarrow> strings_LastIndexByte s c = None"
  by (simp add: strings_LastIndexByte_def strings_Index_notin)

lemma parseHost_plain:
  assumes "plain_host host"
  shows "parseHost host = Inr host"
  using plain_host_set(7) [OF assms] plain_host_set(10) [OF assms, of encodeHost]
        strings_LastIndexByte_notin [OF plain_host_set(1) [OF assms]]
  by (simp add: parseHost_def unescape_id)

lemma parseAuthority_git:
  assumes "plain_host host"
  shows "parseAuthority (''git@'' @ host)
         = Inr (Some \<lparr>username = ''git'', password = '''', passwordSet = False\<rparr>, host)"
proof -
  have l: "strings_LastIndexByte (''git'' @ CHR ''@'' # host) (CHR ''@'') = Some 3"
    using strings_LastIndexByte_last [OF plain_host_set(3) [OF assms], of "''git''"] by simp
  note l' = l [simplified]
  have v: "validUserinfo ''git''" by (simp add: validUserinfo_def is_alpha_def)
  have u: "unescape ''git'' encodeUserPassword = Inr ''git''" by simp
  show ?thesis
    by (simp add: parseAuthority_def l' parseHost_plain [OF assms] v u Let_def)
qed

lemma url_Parse_ssh:
  assumes "plain_host host" "plain_path path"
  shows "\<exists>u. url_Parse (''ssh://git@'' @ host @ ''/'' @ path) = Inr u \<and> Scheme u = ''ssh''"
proof -
  let ?s = "''ssh://git@'' @ host @ ''/'' @ path"
  have nohash: "CHR ''#'' \<notin> set ?s"
    using plain_host_set(5) [OF assms(1)] plain_path_set(4) [OF assms(2)] by simp
  have noq: "CHR ''?'' \<notin> set (''//git@'' @ host @ ''/'' @ path)"
    using plain_host_set(4) [OF assms(1)] plain_path_set(3) [OF assms(2)] by simp
  have ctl: "\<not> stringContainsCTLByte ?s"
    using plain_host_set(9) [OF assms(1)] plain_path_set(10) [OF assms(2)]
    by (simp add: stringContainsCTLByte_def)
  have g: "getScheme ?s = Inr (''ssh'', ''//git@'' @ host @ ''/'' @ path)"
    by (simp add: getScheme_def is_alpha_def is_digit_def)
  have suf: "\<not> strings_HasSuffix (''//git@'' @ host @ ''/'' @ path) ''?''"
    using plain_path_set(3,5) [OF assms(2)]
    by (cases path rule: rev_cases) (auto simp: strings_HasSuffix_def strings_HasPrefix_def)
  have pq: "parse_query ''ssh'' (''//git@'' @ host @ ''/'' @ path)
            = (empty_URL\<lparr>Scheme := ''ssh'', RawQuery := ''''\<rparr>, ''//git@'' @ host @ ''/'' @ path)"
    using suf url_split_notin [OF noq, of True]
    by (simp add: parse_query_def strings_ToLower_def del: append.simps)
  have sl: "CHR ''/'' \<notin> set (''git@'' @ host)"
    using plain_host_set(2) [OF assms(1)] by simp
  have "strings_Index ((''git@'' @ host) @ CHR ''/'' # path) ''/'' = Some (length (''git@'' @ host))"
    using strings_Index_append_notin [OF sl, of "CHR ''/'' # path" "[]"]
    by (simp add: strings_HasPrefix_def)
  then have sp: "url_split (''git@'' @ host @ ''/'' @ path) (CHR ''/'') False
                 = (''git@'' @ host, ''/'' @ path)"
    by (simp add: url_split_def)
  have un: "unescape (''/'' @ path) encodePath = Inr (''/'' @ path)"
    using plain_path_set(11) [OF assms(2)] by (intro unescape_id) (simp add: list_all_iff)
  have sp': "setPath (empty_URL\<lparr>Scheme := ''ssh'', RawQuery := '''',
                        User := Some \<lparr>username = ''git'', password = '''', passwordSet = False\<rparr>,
                        Host := host\<rparr>) (''/'' @ path) = Inr u \<Longrightarrow> Scheme u = ''ssh''" for u
    by (drule setPath_Scheme) (simp add: empty_URL_def)
  have ex: "\<exists>u. setPath (empty_URL\<lparr>Scheme := ''ssh'', RawQuery := '''',
                        User := Some \<lparr>username = ''git'', password = '''', passwordSet = False\<rparr>,
                        Host := host\<rparr>) (''/'' @ path) = Inr u"
    using un by (simp add: setPath_def del: append.simps)
  then obtain u where u: "setPath (empty_URL\<lparr>Scheme := ''ssh'', RawQuery := '''',
                        User := Some \<lparr>username = ''git'', password = '''', passwordSet = False\<rparr>,
                        Host := host\<rparr>) (''/'' @ path) = Inr u"
    by blast
  have ne: "?s \<noteq> ''*''" by simp
  have hp: "strings_HasPrefix (''//git@'' @ host @ ''/'' @ path) ''/''"
      "strings_HasPrefix (''//git@'' @ host @ ''/'' @ path) ''//''"
      "drop 2 (''//git@'' @ host @ ''/'' @ path) = ''git@'' @ host @ ''/'' @ path"
    by (simp_all add: strings_HasPrefix_def)
  have p: "parse ?s = Inr u"
    unfolding parse_def
    using ctl ne g pq hp sp parseAuthority_git [OF assms(1)] u
    by (simp add: Let_def empty_URL_def)
  have "url_Parse ?s = Inr u"
    using url_split_notin [OF nohash, of True]
    by (simp add: url_Parse_def Let_def p del: append.simps)
  with sp' [OF u] show ?thesis by blast
qed

lemma Detect_ssh_again:
  assumes "plain_host host" "plain_path path"
  shows "Detect go_unix (''git::ssh://git@'' @ host @ ''/'' @ path) pwd ds
         = (''git::ssh://git@'' @ host @ ''/'' @ path, None)"
proof -
  from url_Parse_ssh [OF assms] obtain u
    where u: "url_Parse (''ssh://git@'' @ host @ ''/'' @ path) = Inr u" and s: "Scheme u = ''ssh''"
    by blast
  have b: "fst (SourceDirSubdir go_unix (snd (getForcedGetter go_unix
              (''git::ssh://git@'' @ host @ ''/'' @ path)))) = ''ssh://git@'' @ host @ ''/'' @ path"
    using getForcedGetter_spec_git [of "''ssh://git@'' @ host @ ''/'' @ path"]
    by (simp add: go_unix_sel SourceDirSubdir_spec_ssh [OF assms, simplified])
  show ?thesis
    by (rule Detect_valid_url [where u = u]) (use b u s in \<open>simp_all add: go_unix_sel\<close>)
qed

lemma CtxDetect_ssh_again:
  assumes "plain_host host" "plain_path path"
  shows "CtxDetect go_unix (''git::ssh://git@'' @ host @ ''/'' @ path) pwd rf cds
         = (''git::ssh://git@'' @ host @ ''/'' @ path, None)"
proof -
  from url_Parse_ssh [OF assms] obtain u
    where u: "url_Parse (''ssh://git@'' @ host @ ''/'' @ path) = Inr u" and s: "Scheme u = ''ssh''"
    by blast
  have b: "fst (SourceDirSubdir go_unix (snd (getForcedGetter go_unix
              (''git::ssh://git@'' @ host @ ''/'' @ path)))) = ''ssh://git@'' @ host @ ''/'' @ path"
    using getForcedGetter_spec_git [of "''ssh://git@'' @ host @ ''/'' @ path"]
    by (simp add: go_unix_sel SourceDirSubdir_spec_ssh [OF assms, simplified])
  show ?thesis
    by (rule CtxDetect_valid_url [where u = u]) (use b u s in \<open>simp_all add: go_unix_sel\<close>)
qed

subsection \<open>What the Git detectors return\<close>

lemma detectGitForceFilepath_emit_cases:
  "(\<exists>uri. detectGitForceFilepath_emit X force p = (force @ ''::'' @ uri, True, None))
   \<or> (\<exists>e. detectGitForceFilepath_emit X force p = ('''', False, Some e))"
  by (simp add: detectGitForceFilepath_emit_def Let_def split: sum.splits)

lemma detectGitForceFilepath_cases:
  "(\<exists>uri. detectGitForceFilepath X src pwd force rf = (''git::'' @ uri, True, None))
   \<or> (\<exists>e. detectGitForceFilepath X src pwd force rf = ('''', False, Some e))
   \<or> detectGitForceFilepath X src pwd force rf = ('''', False, None)"
proof (cases "force = ''git''")
  case False
  then show ?thesis by (simp add: detectGitForceFilepath_def)
next
  case True
  have e: "\<And>p. (\<exists>uri. detectGitForceFilepath_emit X ''git'' p = (''git::'' @ uri, True, None))
   \<or> (\<exists>e. detectGitForceFilepath_emit X ''git'' p = ('''', False, Some e))"
    using detectGitForceFilepath_emit_cases [of X "''git''"] by simp
  show ?thesis
    unfolding detectGitForceFilepath_def True
    using e [of src] e [of "filepath_Join X [rf, src]"] e [of "filepath_Join X [pwd, src]"]
    by (simp del: append.simps) blast
qed

lemma GitDetector_Detect_token:
  "GitDetector_Detect X src pwd = (uri, True, None) \<Longrightarrow> strings_HasPrefix uri ''git::''"
  by (auto simp: GitDetector_Detect_def strings_HasPrefix_def
           split: if_splits sum.splits option.splits)

lemma detectGitForceFilepath_token:
  "detectGitForceFilepath X src pwd force rf = (uri, True, None)
   \<Longrightarrow> strings_HasPrefix uri ''git::''"
  using detectGitForceFilepath_cases [of X src pwd force rf]
  by (auto simp: strings_HasPrefix_def)

lemma GitCtxDetector_CtxDetect_token:
  assumes a: "GitCtxDetector_CtxDetect X src pwd forceToken ctxSubDir rf = (uri, True, None)"
  shows "strings_HasPrefix uri ''git::''"
proof (cases "detectGitForceFilepath X src pwd forceToken rf")
  case (fields r ok err)
  with detectGitForceFilepath_cases [of X src pwd forceToken rf]
  have r: "ok \<and> err = None \<longrightarrow> strings_HasPrefix r ''git::''"
    by (auto simp: strings_HasPrefix_def)
  from a fields r show ?thesis
    by (auto simp: GitCtxDetector_CtxDetect_def Let_def strings_HasPrefix_def
             split: if_splits sum.splits option.splits)
qed

text \<open>
  C7, in the form that holds. Whenever \<open>GitDetector.Detect\<close>, \<open>detectGitForceFilepath\<close> or
  \<open>GitCtxDetector.CtxDetect\<close> commits (matched, no error), the string it returns
  begins with the force token \<open>git::\<close> (first three conjuncts), which
  \<open>getForcedGetter\<close> reads as the token \<open>git\<close> (fourth). \<open>handleDetected\<close>
  takes the detector's token and subdir off the detected string; whatever the
  caller's token and subdir are, a successful result is one token followed by the
  rebuilt rest: the token is the caller's when it is non-empty, else the detector's,
  else none; the rest is the detector's base when the merged subdir is empty, and
  otherwise the base parsed as a URL and serialised with \<open>//\<close> and the merged
  subdir appended to its path (fifth). The dispatchers return just that: when the
  body of the address is no URL with a scheme, the members \<open>pre\<close> decline and the
  next member commits with \<open>detected\<close>, \<open>Detect\<close> and \<open>CtxDetect\<close> return what
  \<open>handleDetected\<close> makes of \<open>detected\<close>, the token of the address and the
  subdir of the address (sixth).
\<close>

theorem C7_git_results_carry_the_git_token:
  assumes base: "base = fst (SourceDirSubdir X (snd (getForcedGetter X detected)))"
      and merged: "merged =
                     (if snd (SourceDirSubdir X (snd (getForcedGetter X detected))) \<noteq> '''' then
                        (if subDir \<noteq> '''' then
                           filepath_Join X
                             [snd (SourceDirSubdir X (snd (getForcedGetter X detected))), subDir]
                         else snd (SourceDirSubdir X (snd (getForcedGetter X detected))))
                      else subDir)"
      and token: "token = (if srcGetForce \<noteq> '''' then srcGetForce @ ''::''
                           else if fst (getForcedGetter X detected) \<noteq> ''''
                                then fst (getForcedGetter X detected) @ ''::''
                           else '''')"
  shows "(GitDetector_Detect X src pwd = (uri, True, None) \<longrightarrow> strings_HasPrefix uri ''git::'')
       \<and> (detectGitForceFilepath X src pwd force srcResolveFrom = (uri1, True, None)
            \<longrightarrow> strings_HasPrefix uri1 ''git::'')
       \<and> (GitCtxDetector_CtxDetect X src pwd forceToken ctxSubDir srcResolveFrom
            = (uri2, True, None)
            \<longrightarrow> strings_HasPrefix uri2 ''git::'')
       \<and> getForcedGetter go_unix (''git::'' @ rest) = (''git'', rest)
       \<and> (handleDetected X detected srcGetForce subDir = (r, None)
            \<longrightarrow> (merged = '''' \<and> r = token @ base)
                \<or> (merged \<noteq> ''''
                    \<and> (\<exists>u. helper_url_Parse X base = Inr u
                             \<and> r = token @ URL_String X (u\<lparr>Path := Path u @ ''//'' @ merged,
                                                              RawPath := Path u @ ''//'' @ merged\<rparr>))))
       \<and> ((\<forall>u. helper_url_Parse X (fst (SourceDirSubdir X (snd (getForcedGetter X address))))
                  = Inr u \<longrightarrow> Scheme u = '''')
           \<and> getSrc = fst (SourceDirSubdir X (snd (getForcedGetter X address)))
           \<and> srcGetForce = fst (getForcedGetter X address)
           \<and> subDir = snd (SourceDirSubdir X (snd (getForcedGetter X address)))
           \<longrightarrow> ((\<forall>d' \<in> set pre. fst (snd (d' getSrc dir)) = False
                                   \<and> snd (snd (d' getSrc dir)) = None)
                 \<and> d getSrc dir = (detected, True, None)
                 \<longrightarrow> Detect X address dir (pre @ d # post)
                     = handleDetected X detected srcGetForce subDir)
               \<and> ((\<forall>c' \<in> set cpre. fst (snd (c' getSrc dir srcGetForce subDir rf)) = False
                                     \<and> snd (snd (c' getSrc dir srcGetForce subDir rf)) = None)
                   \<and> c getSrc dir srcGetForce subDir rf = (detected, True, None)
                   \<longrightarrow> CtxDetect X address dir rf (cpre @ c # cpost)
                       = handleDetected X detected srcGetForce subDir))"
proof (intro conjI impI)
  assume "GitDetector_Detect X src pwd = (uri, True, None)"
  then show "strings_HasPrefix uri ''git::''" by (rule GitDetector_Detect_token)
next
  assume "detectGitForceFilepath X src pwd force srcResolveFrom = (uri1, True, None)"
  then show "strings_HasPrefix uri1 ''git::''" by (rule detectGitForceFilepath_token)
next
  assume "GitCtxDetector_CtxDetect X src pwd forceToken ctxSubDir srcResolveFrom
          = (uri2, True, None)"
  then show "strings_HasPrefix uri2 ''git::''" by (rule GitCtxDetector_CtxDetect_token)
next
  show "getForcedGetter go_unix (''git::'' @ rest) = (''git'', rest)"
    using getForcedGetter_spec_git [of rest] by (simp add: go_unix_sel)
next
  assume "handleDetected X detected srcGetForce subDir = (r, None)"
  then show "(merged = '''' \<and> r = token @ base)
                \<or> (merged \<noteq> ''''
                    \<and> (\<exists>u. helper_url_Parse X base = Inr u
                             \<and> r = token @ URL_String X (u\<lparr>Path := Path u @ ''//'' @ merged,
                                                              RawPath := Path u @ ''//'' @ merged\<rparr>)))"
    using base merged token by (rule handleDetected_success)
next
  assume a: "(\<forall>u. helper_url_Parse X (fst (SourceDirSubdir X (snd (getForcedGetter X address))))
                  = Inr u \<longrightarrow> Scheme u = '''')
           \<and> getSrc = fst (SourceDirSubdir X (snd (getForcedGetter X address)))
           \<and> srcGetForce = fst (getForcedGetter X address)
           \<and> subDir = snd (SourceDirSubdir X (snd (getForcedGetter X address)))"
    and b: "(\<forall>d' \<in> set pre. fst (snd (d' getSrc dir)) = False
                                   \<and> snd (snd (d' getSrc dir)) = None)
                 \<and> d getSrc dir = (detected, True, None)"
  from a b show "Detect X address dir (pre @ d # post)
                 = handleDetected X detected srcGetForce subDir"
    by (simp add: Detect_handleDetected)
next
  assume a: "(\<forall>u. helper_url_Parse X (fst (SourceDirSubdir X (snd (getForcedGetter X address))))
                  = Inr u \<longrightarrow> Scheme u = '''')
           \<and> getSrc = fst (SourceDirSubdir X (snd (getForcedGetter X address)))
           \<and> srcGetForce = fst (getForcedGetter X address)
           \<and> subDir = snd (SourceDirSubdir X (snd (getForcedGetter X address)))"
    and b: "(\<forall>c' \<in> set cpre. fst (snd (c' getSrc dir srcGetForce subDir rf)) = False
                                     \<and> snd (snd (c' getSrc dir srcGetForce subDir rf)) = None)
                   \<and> c getSrc dir srcGetForce subDir rf = (detected, True, None)"
  from a b show "CtxDetect X address dir rf (cpre @ c # cpost)
                 = handleDetected X detected srcGetForce subDir"
    by (simp add: CtxDetect_handleDetected)
qed

text \<open>The Git detectors on addresses of the package's tests; the spec's SSH
  example with a subdir, through both dispatchers, in chains with a declining member
  before the Git detector and a failing one after it; the same address under the
  caller's token \<open>hg\<close>.\<close>

theorem C7_git_results_carry_the_git_token_witness:
  "strings_HasPrefix (fst (GitDetector_Detect go_unix ''git@github.com:hashicorp/foo.git'' ''/pwd''))
     ''git::''
   \<and> strings_HasPrefix (fst (detectGitForceFilepath go_unix ''/somedir'' ''/pwd'' ''git'' ''''))
       ''git::''
   \<and> strings_HasPrefix
        (fst (GitCtxDetector_CtxDetect go_unix ''./somedir'' ''/pwd'' ''git'' '''' '''')) ''git::''
   \<and> Detect go_unix ''git@github.com:hashicorp/foo.git//bar'' ''/pwd''
        [declining_Detector, GitDetector_Detect go_unix, failing_Detector]
     = (''git::ssh://git@github.com/hashicorp/foo.git//bar'', None)
   \<and> CtxDetect go_unix ''git@github.com:hashicorp/foo.git//bar'' ''/pwd'' ''''
        [declining_CtxDetector, GitCtxDetector_CtxDetect go_unix, failing_CtxDetector]
     = (''git::ssh://git@github.com/hashicorp/foo.git//bar'', None)
   \<and> (\<exists>u. helper_url_Parse go_unix ''ssh://git@github.com/hashicorp/foo.git'' = Inr u
           \<and> ''git::ssh://git@github.com/hashicorp/foo.git//bar''
             = ''git::'' @ URL_String go_unix (u\<lparr>Path := Path u @ ''//'' @ ''bar'',
                                                   RawPath := Path u @ ''//'' @ ''bar''\<rparr>))
   \<and> Detect go_unix ''hg::git@github.com:hashicorp/foo.git'' ''/pwd''
        [declining_Detector, GitDetector_Detect go_unix, failing_Detector]
     = (''hg::ssh://git@github.com/hashicorp/foo.git'', None)"
proof -
  have 1: "GitDetector_Detect go_unix ''git@github.com:hashicorp/foo.git'' ''/pwd''
           = (''git::ssh://git@github.com/hashicorp/foo.git'', True, None)"
    and 2: "detectGitForceFilepath go_unix ''/somedir'' ''/pwd'' ''git'' ''''
           = (''git::file:///somedir'', True, None)"
    and 3: "GitCtxDetector_CtxDetect go_unix ''./somedir'' ''/pwd'' ''git'' '''' ''''
           = (''git::file:///pwd/somedir'', True, None)"
    and c: "GitCtxDetector_CtxDetect go_unix ''git@github.com:hashicorp/foo.git'' ''/pwd'' ''''
              ''bar'' ''''
           = (''git::ssh://git@github.com/hashicorp/foo.git'', True, None)"
    and g: "getForcedGetter go_unix ''git::ssh://git@github.com/hashicorp/foo.git''
           = (''git'', ''ssh://git@github.com/hashicorp/foo.git'')"
    and s: "SourceDirSubdir go_unix ''ssh://git@github.com/hashicorp/foo.git''
           = (''ssh://git@github.com/hashicorp/foo.git'', '''')"
    and ga: "getForcedGetter go_unix ''git@github.com:hashicorp/foo.git//bar''
           = ('''', ''git@github.com:hashicorp/foo.git//bar'')"
    and sa: "SourceDirSubdir go_unix ''git@github.com:hashicorp/foo.git//bar''
           = (''git@github.com:hashicorp/foo.git'', ''bar'')"
    and gh: "getForcedGetter go_unix ''hg::git@github.com:hashicorp/foo.git''
           = (''hg'', ''git@github.com:hashicorp/foo.git'')"
    and sh: "SourceDirSubdir go_unix ''git@github.com:hashicorp/foo.git''
           = (''git@github.com:hashicorp/foo.git'', '''')"
    and n: "case helper_url_Parse go_unix ''git@github.com:hashicorp/foo.git'' of
              Inl e \<Rightarrow> True | Inr u \<Rightarrow> Scheme u = ''''"
    and h1: "handleDetected go_unix ''git::ssh://git@github.com/hashicorp/foo.git'' '''' ''bar''
           = (''git::ssh://git@github.com/hashicorp/foo.git//bar'', None)"
    and h2: "handleDetected go_unix ''git::ssh://git@github.com/hashicorp/foo.git'' ''hg'' ''''
           = (''hg::ssh://git@github.com/hashicorp/foo.git'', None)"
    by code_simp+
  from n have nourl: "\<forall>u. helper_url_Parse go_unix ''git@github.com:hashicorp/foo.git'' = Inr u
                          \<longrightarrow> Scheme u = ''''"
    by (auto split: sum.splits)
  note A = C7_git_results_carry_the_git_token
         [OF refl refl refl,
          where X = go_unix and src = "''git@github.com:hashicorp/foo.git''" and pwd = "''/pwd''"
            and uri = "''git::ssh://git@github.com/hashicorp/foo.git''"
            and detected = "''git::ssh://git@github.com/hashicorp/foo.git''"
            and srcGetForce = "''''" and subDir = "''bar''"
            and r = "''git::ssh://git@github.com/hashicorp/foo.git//bar''"
            and address = "''git@github.com:hashicorp/foo.git//bar''"
            and getSrc = "''git@github.com:hashicorp/foo.git''" and dir = "''/pwd''"
            and pre = "[declining_Detector]" and d = "GitDetector_Detect go_unix"
            and post = "[failing_Detector]"
            and cpre = "[declining_CtxDetector]" and c = "GitCtxDetector_CtxDetect go_unix"
            and cpost = "[failing_CtxDetector]"
            and rf = "''''"]
  note B = C7_git_results_carry_the_git_token
         [OF refl refl refl,
          where X = go_unix and src = "''/somedir''" and pwd = "''/pwd''" and force = "''git''"
            and srcResolveFrom = "''''" and ?uri1.0 = "''git::file:///somedir''"]
  note C = C7_git_results_carry_the_git_token
         [OF refl refl refl,
          where X = go_unix and src = "''./somedir''" and pwd = "''/pwd''"
            and forceToken = "''git''" and ctxSubDir = "''''" and srcResolveFrom = "''''"
            and ?uri2.0 = "''git::file:///pwd/somedir''"]
  note D = C7_git_results_carry_the_git_token
         [OF refl refl refl,
          where X = go_unix
            and detected = "''git::ssh://git@github.com/hashicorp/foo.git''"
            and srcGetForce = "''hg''" and subDir = "''''"
            and r = "''hg::ssh://git@github.com/hashicorp/foo.git''"
            and address = "''hg::git@github.com:hashicorp/foo.git''"
            and getSrc = "''git@github.com:hashicorp/foo.git''" and dir = "''/pwd''"
            and pre = "[declining_Detector]" and d = "GitDetector_Detect go_unix"
            and post = "[failing_Detector]"]
  from A have a1: "strings_HasPrefix
         (fst (GitDetector_Detect go_unix ''git@github.com:hashicorp/foo.git'' ''/pwd'')) ''git::''"
    by (simp add: 1)
  from B have a2: "strings_HasPrefix
         (fst (detectGitForceFilepath go_unix ''/somedir'' ''/pwd'' ''git'' '''')) ''git::''"
    by (simp add: 2)
  from C have a3: "strings_HasPrefix
        (fst (GitCtxDetector_CtxDetect go_unix ''./somedir'' ''/pwd'' ''git'' '''' '''')) ''git::''"
    by (simp add: 3)
  from A nourl have a4: "Detect go_unix ''git@github.com:hashicorp/foo.git//bar'' ''/pwd''
         [declining_Detector, GitDetector_Detect go_unix, failing_Detector]
     = (''git::ssh://git@github.com/hashicorp/foo.git//bar'', None)"
    by (simp add: ga sa 1 h1 declining_Detector_def)
  from A nourl have a5: "CtxDetect go_unix ''git@github.com:hashicorp/foo.git//bar'' ''/pwd'' ''''
        [declining_CtxDetector, GitCtxDetector_CtxDetect go_unix, failing_CtxDetector]
     = (''git::ssh://git@github.com/hashicorp/foo.git//bar'', None)"
    by (simp add: ga sa c h1 declining_CtxDetector_def)
  from A have a6: "\<exists>u. helper_url_Parse go_unix ''ssh://git@github.com/hashicorp/foo.git'' = Inr u
           \<and> ''git::ssh://git@github.com/hashicorp/foo.git//bar''
             = ''git::'' @ URL_String go_unix (u\<lparr>Path := Path u @ ''//'' @ ''bar'',
                                                   RawPath := Path u @ ''//'' @ ''bar''\<rparr>)"
    by (simp add: h1 g s)
  from D nourl have a7: "Detect go_unix ''hg::git@github.com:hashicorp/foo.git'' ''/pwd''
         [declining_Detector, GitDetector_Detect go_unix, failing_Detector]
     = (''hg::ssh://git@github.com/hashicorp/foo.git'', None)"
    by (simp add: gh sh 1 h2 declining_Detector_def)
  from a1 a2 a3 a4 a5 a6 a7 show ?thesis by (simp del: append.simps)
qed

text \<open>C7 as stated fails: the Git detector commits on the spec's own example with
  a string that begins with \<open>git::\<close>, which \<open>getForcedGetter\<close> reads as the force
  token \<open>git\<close>; so does the forced-filepath resolver.\<close>

theorem C7_counterexample:
  "GitDetector_Detect go_unix ''git@github.com:hashicorp/foo.git'' ''/pwd''
     = (''git::ssh://git@github.com/hashicorp/foo.git'', True, None)
   \<and> getForcedGetter go_unix ''git::ssh://git@github.com/hashicorp/foo.git''
     = (''git'', ''ssh://git@github.com/hashicorp/foo.git'')
   \<and> detectGitForceFilepath go_unix ''/somedir'' ''/pwd'' ''git'' ''''
     = (''git::file:///somedir'', True, None)"
  by code_simp

text \<open>
  C10. Under the force token \<open>git\<close>, \<open>GitCtxDetector.CtxDetect\<close> either commits
  with a string that begins with \<open>git::\<close>, or fails with an error and an empty
  string; it never returns not-matched without an error.
\<close>

theorem C10_forced_git_never_declines_silently:
  "(\<exists>uri. GitCtxDetector_CtxDetect X src pwd ''git'' ctxSubDir srcResolveFrom
            = (''git::'' @ uri, True, None))
   \<or> (\<exists>e. GitCtxDetector_CtxDetect X src pwd ''git'' ctxSubDir srcResolveFrom
            = ('''', False, Some e))"
proof -
  consider (c) uri where
      "detectGitForceFilepath X src pwd ''git'' srcResolveFrom = (''git::'' @ uri, True, None)"
    | (e) e where
      "detectGitForceFilepath X src pwd ''git'' srcResolveFrom = ('''', False, Some e)"
    | (d) "detectGitForceFilepath X src pwd ''git'' srcResolveFrom = ('''', False, None)"
    using detectGitForceFilepath_cases [of X src pwd "''git''" srcResolveFrom] by blast
  then show ?thesis
  proof cases
    case c
    then show ?thesis by (simp add: GitCtxDetector_CtxDetect_def)
  next
    case e
    then show ?thesis by (simp add: GitCtxDetector_CtxDetect_def)
  next
    case d
    then show ?thesis
      by (simp add: GitCtxDetector_CtxDetect_def split: sum.splits option.splits)
  qed
qed

text \<open>An address that is neither SSH-like nor filepath-shaped, the empty address
  and a foreign SSH user, all under \<open>git::\<close>.\<close>

theorem C10_forced_git_never_declines_silently_witness:
  "GitCtxDetector_CtxDetect go_unix ''somedir'' ''/pwd'' ''git'' '''' ''''
     = ('''', False,
        Some (Error ''forced 'git::' handling: ssh detection yielded nil URL for src: somedir''))
   \<and> (\<exists>e. GitCtxDetector_CtxDetect go_unix '''' ''/pwd'' ''git'' '''' '''' = ('''', False, Some e))
   \<and> (\<exists>e. GitCtxDetector_CtxDetect go_unix ''hg@example.com:repo'' ''/pwd'' ''git'' '''' ''''
            = ('''', False, Some e))"
proof -
  have f: "GitCtxDetector_CtxDetect go_unix ''somedir'' ''/pwd'' ''git'' '''' ''''
     = ('''', False,
        Some (Error ''forced 'git::' handling: ssh detection yielded nil URL for src: somedir''))"
    and g: "fst (snd (GitCtxDetector_CtxDetect go_unix '''' ''/pwd'' ''git'' '''' '''')) = False"
    and h: "fst (snd (GitCtxDetector_CtxDetect go_unix ''hg@example.com:repo'' ''/pwd'' ''git''
                        '''' '''')) = False"
    by code_simp+
  from g C10_forced_git_never_declines_silently [of go_unix "''''" "''/pwd''" "''''" "''''"]
  have 2: "\<exists>e. GitCtxDetector_CtxDetect go_unix '''' ''/pwd'' ''git'' '''' ''''
               = ('''', False, Some e)"
    by auto
  from h C10_forced_git_never_declines_silently
           [of go_unix "''hg@example.com:repo''" "''/pwd''" "''''" "''''"]
  have 3: "\<exists>e. GitCtxDetector_CtxDetect go_unix ''hg@example.com:repo'' ''/pwd'' ''git'' '''' ''''
               = ('''', False, Some e)"
    by auto
  from f 2 3 show ?thesis by simp
qed

subsection \<open>Reassembly of a detected result\<close>

text \<open>
  C6. \<open>handleDetected\<close> splits the detector's result into its own
  token \<open>detectForce\<close>, its base \<open>result\<close> and its subdir \<open>detectSubdir\<close>. The
  merged subdir is \<open>filepath.Join(detectSubdir, subDir)\<close> when both are non-empty
  and otherwise the one that is non-empty. When it is non-empty, the base is parsed,
  \<open>//\<close> and the merged subdir are appended to the URL's \<open>Path\<close>, \<open>RawPath\<close> is
  set to the same text and the URL is serialised (a parse error is returned instead).
  One token goes in front: the caller's when it is non-empty, else the detector's,
  else none (first three conjuncts). The dispatchers call it with the token and the
  subdir of the address: when the body of the address is no URL with a scheme, the
  members before the winning one decline and the winning one commits with
  \<open>detectedResult\<close>, \<open>Detect\<close> and \<open>CtxDetect\<close> return what \<open>handleDetected\<close>
  returns (fourth conjunct). The spec's example, run through \<open>CtxDetect\<close>, keeps
  its subdir \<open>//three\<close> (fifth).

  The wildcards of the merged subdir are not always kept as written. \<open>RawPath\<close> is
  only a hint to \<open>URL.String\<close>, used when it is a valid encoding of \<open>Path\<close>. On
  \<open>git::/mydir//sub*\<close> it is, and the wildcard stays (sixth conjunct). On
  \<open>git::/my dir//sub*\<close> the path holds a space, the hint is dropped, and the whole
  path is escaped, the wildcard with it: the result ends with \<open>sub%2A\<close> (last
  conjunct), where the comment in \<open>handleDetected\<close> says that the path is not to
  be escaped so that wildcards are supported.
\<close>

theorem C6_reassembly_and_escaped_wildcard:
  assumes "getForcedGetter X detectedResult = (detectForce, result0)"
      and "SourceDirSubdir X result0 = (result, detectSubdir)"
      and "merged = (if detectSubdir \<noteq> '''' then
                       (if subDir \<noteq> '''' then filepath_Join X [detectSubdir, subDir]
                        else detectSubdir)
                     else subDir)"
      and "token = (if srcGetForce \<noteq> '''' then srcGetForce @ ''::''
                    else if detectForce \<noteq> '''' then detectForce @ ''::''
                    else '''')"
  shows "(merged = '''' \<longrightarrow>
            handleDetected X detectedResult srcGetForce subDir = (token @ result, None))
       \<and> (merged \<noteq> '''' \<and> helper_url_Parse X result = Inr u \<longrightarrow>
            handleDetected X detectedResult srcGetForce subDir
            = (token @ URL_String X (u\<lparr>Path := Path u @ ''//'' @ merged,
                                        RawPath := Path u @ ''//'' @ merged\<rparr>), None))
       \<and> (merged \<noteq> '''' \<and> helper_url_Parse X result = Inl err \<longrightarrow>
            handleDetected X detectedResult srcGetForce subDir
            = ('''', Some (Error (''Error parsing URL: '' @ message err))))
       \<and> ((\<forall>u. helper_url_Parse X (fst (SourceDirSubdir X (snd (getForcedGetter X src))))
                  = Inr u \<longrightarrow> Scheme u = '''')
           \<and> getSrc = fst (SourceDirSubdir X (snd (getForcedGetter X src)))
           \<and> srcGetForce = fst (getForcedGetter X src)
           \<and> subDir = snd (SourceDirSubdir X (snd (getForcedGetter X src)))
           \<longrightarrow> ((\<forall>d' \<in> set pre. fst (snd (d' getSrc pwd)) = False
                                   \<and> snd (snd (d' getSrc pwd)) = None)
                 \<and> d getSrc pwd = (detectedResult, True, None)
                 \<longrightarrow> Detect X src pwd (pre @ d # post)
                     = handleDetected X detectedResult srcGetForce subDir)
               \<and> ((\<forall>c' \<in> set cpre. fst (snd (c' getSrc pwd srcGetForce subDir rf)) = False
                                     \<and> snd (snd (c' getSrc pwd srcGetForce subDir rf)) = None)
                   \<and> c getSrc pwd srcGetForce subDir rf = (detectedResult, True, None)
                   \<longrightarrow> CtxDetect X src pwd rf (cpre @ c # cpost)
                       = handleDetected X detectedResult srcGetForce subDir))
       \<and> CtxDetect go_unix ''git::./somedir/two//three'' ''/pwd'' ''''
            [GitCtxDetector_CtxDetect go_unix]
          = (''git::file:///pwd/somedir/two//three'', None)
       \<and> CtxDetect go_unix ''git::/mydir//sub*'' ''/pwd'' '''' [GitCtxDetector_CtxDetect go_unix]
          = (''git::file:///mydir//sub*'', None)
       \<and> CtxDetect go_unix ''git::/my dir//sub*'' ''/pwd'' '''' [GitCtxDetector_CtxDetect go_unix]
          = (''git::file:///my%20dir//sub%2A'', None)"
proof -
  have e: "CtxDetect go_unix ''git::./somedir/two//three'' ''/pwd'' ''''
            [GitCtxDetector_CtxDetect go_unix]
          = (''git::file:///pwd/somedir/two//three'', None)"
      "CtxDetect go_unix ''git::/mydir//sub*'' ''/pwd'' '''' [GitCtxDetector_CtxDetect go_unix]
          = (''git::file:///mydir//sub*'', None)"
      "CtxDetect go_unix ''git::/my dir//sub*'' ''/pwd'' '''' [GitCtxDetector_CtxDetect go_unix]
          = (''git::file:///my%20dir//sub%2A'', None)"
    by code_simp+
  have h: "(merged = '''' \<longrightarrow>
            handleDetected X detectedResult srcGetForce subDir = (token @ result, None))
       \<and> (merged \<noteq> '''' \<and> helper_url_Parse X result = Inr u \<longrightarrow>
            handleDetected X detectedResult srcGetForce subDir
            = (token @ URL_String X (u\<lparr>Path := Path u @ ''//'' @ merged,
                                        RawPath := Path u @ ''//'' @ merged\<rparr>), None))
       \<and> (merged \<noteq> '''' \<and> helper_url_Parse X result = Inl err \<longrightarrow>
            handleDetected X detectedResult srcGetForce subDir
            = ('''', Some (Error (''Error parsing URL: '' @ message err))))"
    using assms by (simp add: handleDetected_def Let_def)
  have t: "(\<forall>u. helper_url_Parse X (fst (SourceDirSubdir X (snd (getForcedGetter X src))))
                  = Inr u \<longrightarrow> Scheme u = '''')
           \<and> getSrc = fst (SourceDirSubdir X (snd (getForcedGetter X src)))
           \<and> srcGetForce = fst (getForcedGetter X src)
           \<and> subDir = snd (SourceDirSubdir X (snd (getForcedGetter X src)))
           \<longrightarrow> ((\<forall>d' \<in> set pre. fst (snd (d' getSrc pwd)) = False
                                   \<and> snd (snd (d' getSrc pwd)) = None)
                 \<and> d getSrc pwd = (detectedResult, True, None)
                 \<longrightarrow> Detect X src pwd (pre @ d # post)
                     = handleDetected X detectedResult srcGetForce subDir)
               \<and> ((\<forall>c' \<in> set cpre. fst (snd (c' getSrc pwd srcGetForce subDir rf)) = False
                                     \<and> snd (snd (c' getSrc pwd srcGetForce subDir rf)) = None)
                   \<and> c getSrc pwd srcGetForce subDir rf = (detectedResult, True, None)
                   \<longrightarrow> CtxDetect X src pwd rf (cpre @ c # cpost)
                       = handleDetected X detectedResult srcGetForce subDir)"
    by (simp add: Detect_handleDetected CtxDetect_handleDetected)
  from h t e show ?thesis by (simp del: append.simps)
qed

text \<open>A detector subdir joined in front of the caller's; a result without
  token and subdir; the caller's token winning over the detector's through
  \<open>Detect\<close>, with a wildcard in the subdir; the caller's subdir through
  \<open>CtxDetect\<close>.\<close>

theorem C6_reassembly_and_escaped_wildcard_witness:
  "handleDetected go_unix ''git::ssh://git@github.com/org/repo.git//modules'' '''' ''net/vpc''
     = (''git::ssh://git@github.com/org/repo.git//modules/net/vpc'', None)
   \<and> handleDetected go_unix ''ssh://git@github.com/org/repo.git'' '''' ''''
     = (''ssh://git@github.com/org/repo.git'', None)
   \<and> Detect go_unix ''hg::git@github.com:org/repo.git//mod*'' ''/pwd''
        [declining_Detector, GitDetector_Detect go_unix, matching_Detector]
     = (''hg::ssh://git@github.com/org/repo.git//mod*'', None)
   \<and> CtxDetect go_unix ''git@github.com:org/repo.git//modules'' ''/pwd'' ''''
        [declining_CtxDetector, GitCtxDetector_CtxDetect go_unix, matching_CtxDetector]
     = (''git::ssh://git@github.com/org/repo.git//modules'', None)"
proof -
  let ?u = "empty_URL\<lparr>Scheme := ''ssh'',
              User := Some \<lparr>username = ''git'', password = '''', passwordSet = False\<rparr>,
              Host := ''github.com'', Path := ''/org/repo.git''\<rparr>"
  have g1: "getForcedGetter go_unix ''git::ssh://git@github.com/org/repo.git//modules''
            = (''git'', ''ssh://git@github.com/org/repo.git//modules'')"
    and s1: "SourceDirSubdir go_unix ''ssh://git@github.com/org/repo.git//modules''
            = (''ssh://git@github.com/org/repo.git'', ''modules'')"
    and j1: "filepath_Join go_unix [''modules'', ''net/vpc''] = ''modules/net/vpc''"
    and p: "helper_url_Parse go_unix ''ssh://git@github.com/org/repo.git'' = Inr ?u"
    and t1: "URL_String go_unix (?u\<lparr>Path := Path ?u @ ''//'' @ ''modules/net/vpc'',
                                      RawPath := Path ?u @ ''//'' @ ''modules/net/vpc''\<rparr>)
             = ''ssh://git@github.com/org/repo.git//modules/net/vpc''"
    and g2: "getForcedGetter go_unix ''git::ssh://git@github.com/org/repo.git''
            = (''git'', ''ssh://git@github.com/org/repo.git'')"
    and s2: "SourceDirSubdir go_unix ''ssh://git@github.com/org/repo.git''
            = (''ssh://git@github.com/org/repo.git'', '''')"
    and t2: "URL_String go_unix (?u\<lparr>Path := Path ?u @ ''//'' @ ''mod*'',
                                      RawPath := Path ?u @ ''//'' @ ''mod*''\<rparr>)
             = ''ssh://git@github.com/org/repo.git//mod*''"
    and t3: "URL_String go_unix (?u\<lparr>Path := Path ?u @ ''//'' @ ''modules'',
                                      RawPath := Path ?u @ ''//'' @ ''modules''\<rparr>)
             = ''ssh://git@github.com/org/repo.git//modules''"
    and g3: "getForcedGetter go_unix ''ssh://git@github.com/org/repo.git''
            = ('''', ''ssh://git@github.com/org/repo.git'')"
    and ga: "getForcedGetter go_unix ''hg::git@github.com:org/repo.git//mod*''
            = (''hg'', ''git@github.com:org/repo.git//mod*'')"
    and sa: "SourceDirSubdir go_unix ''git@github.com:org/repo.git//mod*''
            = (''git@github.com:org/repo.git'', ''mod*'')"
    and gb: "getForcedGetter go_unix ''git@github.com:org/repo.git//modules''
            = ('''', ''git@github.com:org/repo.git//modules'')"
    and sb: "SourceDirSubdir go_unix ''git@github.com:org/repo.git//modules''
            = (''git@github.com:org/repo.git'', ''modules'')"
    and n: "case helper_url_Parse go_unix ''git@github.com:org/repo.git'' of
              Inl e \<Rightarrow> True | Inr u \<Rightarrow> Scheme u = ''''"
    and d: "GitDetector_Detect go_unix ''git@github.com:org/repo.git'' ''/pwd''
            = (''git::ssh://git@github.com/org/repo.git'', True, None)"
    and c: "GitCtxDetector_CtxDetect go_unix ''git@github.com:org/repo.git'' ''/pwd'' ''''
              ''modules'' ''''
            = (''git::ssh://git@github.com/org/repo.git'', True, None)"
    by code_simp+
  from n have nourl: "\<forall>u. helper_url_Parse go_unix ''git@github.com:org/repo.git'' = Inr u
                          \<longrightarrow> Scheme u = ''''"
    by (auto split: sum.splits)
  from C6_reassembly_and_escaped_wildcard [OF g1 s1 refl refl, of "''net/vpc''" "''''" ?u] j1 p t1
  have 1: "handleDetected go_unix ''git::ssh://git@github.com/org/repo.git//modules'' ''''
             ''net/vpc''
     = (''git::ssh://git@github.com/org/repo.git//modules/net/vpc'', None)"
    by simp
  from C6_reassembly_and_escaped_wildcard [OF g3 s2 refl refl, of "''''" "''''" ?u]
  have 2: "handleDetected go_unix ''ssh://git@github.com/org/repo.git'' '''' ''''
     = (''ssh://git@github.com/org/repo.git'', None)"
    by simp
  from C6_reassembly_and_escaped_wildcard
         [OF g2 s2 refl refl,
          where subDir = "''mod*''" and srcGetForce = "''hg''" and u = ?u
            and src = "''hg::git@github.com:org/repo.git//mod*''"
            and getSrc = "''git@github.com:org/repo.git''" and pwd = "''/pwd''"
            and pre = "[declining_Detector]" and d = "GitDetector_Detect go_unix"
            and post = "[matching_Detector]"]
       nourl p t2
  have 3: "Detect go_unix ''hg::git@github.com:org/repo.git//mod*'' ''/pwd''
        [declining_Detector, GitDetector_Detect go_unix, matching_Detector]
     = (''hg::ssh://git@github.com/org/repo.git//mod*'', None)"
    by (simp add: ga sa d declining_Detector_def)
  from C6_reassembly_and_escaped_wildcard
         [OF g2 s2 refl refl,
          where subDir = "''modules''" and srcGetForce = "''''" and u = ?u
            and src = "''git@github.com:org/repo.git//modules''"
            and getSrc = "''git@github.com:org/repo.git''" and pwd = "''/pwd''" and rf = "''''"
            and cpre = "[declining_CtxDetector]" and c = "GitCtxDetector_CtxDetect go_unix"
            and cpost = "[matching_CtxDetector]"]
       nourl p t3
  have 4: "CtxDetect go_unix ''git@github.com:org/repo.git//modules'' ''/pwd'' ''''
        [declining_CtxDetector, GitCtxDetector_CtxDetect go_unix, matching_CtxDetector]
     = (''git::ssh://git@github.com/org/repo.git//modules'', None)"
    by (simp add: gb sb c declining_CtxDetector_def)
  from 1 2 3 4 show ?thesis by simp
qed

subsection \<open>Errors and exhaustion of the chain\<close>

lemma Detect_range_stops:
  assumes "\<forall>d' \<in> set pre. fst (snd (d' getSrc pwd)) = False \<and> snd (snd (d' getSrc pwd)) = None"
      and "snd (snd (d getSrc pwd)) = Some e"
  shows "Detect_range X src getSrc pwd getForce subDir (pre @ d # post) = ('''', Some e)"
  using assms by (induction pre) (auto split: prod.splits)

lemma Detect_range_exhausted:
  assumes "\<forall>d' \<in> set ds. fst (snd (d' getSrc pwd)) = False \<and> snd (snd (d' getSrc pwd)) = None"
  shows "Detect_range X src getSrc pwd getForce subDir ds
         = ('''', Some (Error (''invalid source string: '' @ src)))"
  using assms by (induction ds) (auto split: prod.splits)

lemma CtxDetect_range_stops:
  assumes "\<forall>d' \<in> set pre. fst (snd (d' getSrc pwd getForce subDir rf)) = False
                         \<and> snd (snd (d' getSrc pwd getForce subDir rf)) = None"
      and "snd (snd (d getSrc pwd getForce subDir rf)) = Some e"
  shows "CtxDetect_range X src getSrc pwd getForce subDir rf (pre @ d # post) = ('''', Some e)"
  using assms by (induction pre) (auto split: prod.splits)

lemma CtxDetect_range_exhausted:
  assumes "\<forall>d' \<in> set cds. fst (snd (d' getSrc pwd getForce subDir rf)) = False
                         \<and> snd (snd (d' getSrc pwd getForce subDir rf)) = None"
  shows "CtxDetect_range X src getSrc pwd getForce subDir rf cds
         = ('''', Some (Error (''invalid source string: '' @ src)))"
  using assms by (induction cds) (auto split: prod.splits)

text \<open>
  C8. Let the body of the address not parse as a URL with a scheme, so that the
  chain is run on \<open>getSrc\<close> (with \<open>getForce\<close> and \<open>subDir\<close> for \<open>CtxDetect\<close>). If
  the members \<open>pre\<close> decline (not matched, no error) and the next member \<open>d\<close>
  returns the error \<open>e\<close>, the call returns \<open>e\<close> with an empty string, whatever the
  members \<open>post\<close> after it are. If every member declines, the call fails with
  \<open>invalid source string:\<close> followed by the input. Both hold for \<open>Detect\<close> and for
  \<open>CtxDetect\<close>.
\<close>

theorem C8_errors_abort_and_exhaustion_fails:
  assumes nourl: "\<forall>u. helper_url_Parse X (fst (SourceDirSubdir X (snd (getForcedGetter X src))))
                       = Inr u \<longrightarrow> Scheme u = ''''"
      and body: "getSrc = fst (SourceDirSubdir X (snd (getForcedGetter X src)))"
      and force: "getForce = fst (getForcedGetter X src)"
      and sub: "subDir = snd (SourceDirSubdir X (snd (getForcedGetter X src)))"
  shows "((\<forall>d' \<in> set pre. fst (snd (d' getSrc pwd)) = False \<and> snd (snd (d' getSrc pwd)) = None)
           \<and> snd (snd (d getSrc pwd)) = Some e
          \<longrightarrow> Detect X src pwd (pre @ d # post) = ('''', Some e))
       \<and> ((\<forall>d' \<in> set ds. fst (snd (d' getSrc pwd)) = False \<and> snd (snd (d' getSrc pwd)) = None)
          \<longrightarrow> Detect X src pwd ds = ('''', Some (Error (''invalid source string: '' @ src))))
       \<and> ((\<forall>c' \<in> set cpre. fst (snd (c' getSrc pwd getForce subDir rf)) = False
                           \<and> snd (snd (c' getSrc pwd getForce subDir rf)) = None)
           \<and> snd (snd (c getSrc pwd getForce subDir rf)) = Some e
          \<longrightarrow> CtxDetect X src pwd rf (cpre @ c # cpost) = ('''', Some e))
       \<and> ((\<forall>c' \<in> set cds. fst (snd (c' getSrc pwd getForce subDir rf)) = False
                          \<and> snd (snd (c' getSrc pwd getForce subDir rf)) = None)
          \<longrightarrow> CtxDetect X src pwd rf cds
              = ('''', Some (Error (''invalid source string: '' @ src))))"
  unfolding Detect_not_url [OF nourl] CtxDetect_not_url [OF nourl]
    body [symmetric] force [symmetric] sub [symmetric]
proof (intro conjI impI)
  assume "(\<forall>d' \<in> set pre. fst (snd (d' getSrc pwd)) = False \<and> snd (snd (d' getSrc pwd)) = None)
           \<and> snd (snd (d getSrc pwd)) = Some e"
  then show "Detect_range X src getSrc pwd getForce subDir (pre @ d # post) = ('''', Some e)"
    by (simp add: Detect_range_stops)
next
  assume "\<forall>d' \<in> set ds. fst (snd (d' getSrc pwd)) = False \<and> snd (snd (d' getSrc pwd)) = None"
  then show "Detect_range X src getSrc pwd getForce subDir ds
             = ('''', Some (Error (''invalid source string: '' @ src)))"
    by (rule Detect_range_exhausted)
next
  assume "(\<forall>c' \<in> set cpre. fst (snd (c' getSrc pwd getForce subDir rf)) = False
                           \<and> snd (snd (c' getSrc pwd getForce subDir rf)) = None)
           \<and> snd (snd (c getSrc pwd getForce subDir rf)) = Some e"
  then show "CtxDetect_range X src getSrc pwd getForce subDir rf (cpre @ c # cpost)
             = ('''', Some e)"
    by (simp add: CtxDetect_range_stops)
next
  assume "\<forall>c' \<in> set cds. fst (snd (c' getSrc pwd getForce subDir rf)) = False
                          \<and> snd (snd (c' getSrc pwd getForce subDir rf)) = None"
  then show "CtxDetect_range X src getSrc pwd getForce subDir rf cds
             = ('''', Some (Error (''invalid source string: '' @ src)))"
    by (rule CtxDetect_range_exhausted)
qed

text \<open>The Git detector declines \<open>somedir\<close>; the member after it fails; the member
  after that would have committed.\<close>

theorem C8_errors_abort_and_exhaustion_fails_witness:
  "Detect go_unix ''somedir'' ''/pwd''
     [GitDetector_Detect go_unix, failing_Detector, matching_Detector]
     = ('''', Some (Error ''consulted''))
   \<and> Detect go_unix ''somedir'' ''/pwd'' [GitDetector_Detect go_unix]
     = ('''', Some (Error ''invalid source string: somedir''))
   \<and> CtxDetect go_unix ''somedir'' ''/pwd'' ''''
       [GitCtxDetector_CtxDetect go_unix, failing_CtxDetector, matching_CtxDetector]
     = ('''', Some (Error ''consulted''))
   \<and> CtxDetect go_unix ''somedir'' ''/pwd'' '''' [GitCtxDetector_CtxDetect go_unix]
     = ('''', Some (Error ''invalid source string: somedir''))"
proof -
  have b: "fst (SourceDirSubdir go_unix (snd (getForcedGetter go_unix ''somedir''))) = ''somedir''"
    and f: "fst (getForcedGetter go_unix ''somedir'') = ''''"
    and s: "snd (SourceDirSubdir go_unix (snd (getForcedGetter go_unix ''somedir''))) = ''''"
    by code_simp+
  have p: "helper_url_Parse go_unix ''somedir'' = Inr (empty_URL\<lparr>Path := ''somedir''\<rparr>)"
    by code_simp
  have nourl: "\<forall>u. helper_url_Parse go_unix
                  (fst (SourceDirSubdir go_unix (snd (getForcedGetter go_unix ''somedir'')))) = Inr u
               \<longrightarrow> Scheme u = ''''"
    by (simp add: b p empty_URL_def)
  have g: "GitDetector_Detect go_unix ''somedir'' ''/pwd'' = ('''', False, None)"
    and gc: "GitCtxDetector_CtxDetect go_unix ''somedir'' ''/pwd'' '''' '''' ''''
             = ('''', False, None)"
    by code_simp+
  note C = C8_errors_abort_and_exhaustion_fails
      [OF nourl b [symmetric] f [symmetric] s [symmetric],
       where pwd = "''/pwd''" and rf = "''''" and e = "Error ''consulted''"
         and pre = "[GitDetector_Detect go_unix]" and d = failing_Detector
         and post = "[matching_Detector]"
         and ds = "[GitDetector_Detect go_unix]"
         and cpre = "[GitCtxDetector_CtxDetect go_unix]" and c = failing_CtxDetector
         and cpost = "[matching_CtxDetector]"
         and cds = "[GitCtxDetector_CtxDetect go_unix]"]
  from C show ?thesis
    by (simp add: g gc failing_Detector_def failing_CtxDetector_def)
qed

subsection \<open>Detecting a detected result again\<close>

text \<open>
  C9, in the form that holds. An address whose body parses as a URL with a non-empty
  scheme is returned as it is, so the call on the result returns it again (first
  conjunct, for \<open>Detect\<close> and \<open>CtxDetect\<close> and any chain). With the Unix
  externals, for every plain \<open>host\<close> and \<open>path\<close> and every chain whose members
  before the Git detector decline \<open>git@host:path\<close>, the call on \<open>git@host:path\<close>
  succeeds with \<open>git::ssh://git@host/path\<close>, and the call on that result with the
  same \<open>pwd\<close> and chain succeeds with the same string (second conjunct, for
  \<open>Detect\<close> with \<open>GitDetector\<close> and for \<open>CtxDetect\<close> with \<open>GitCtxDetector\<close>).
  The last two conjuncts are a forced filepath of the package's tests and the call
  on its result.
\<close>

theorem C9_idempotent_on_urls_and_plain_git_ssh:
  "(helper_url_Parse X (fst (SourceDirSubdir X (snd (getForcedGetter X src)))) = Inr u
      \<and> Scheme u \<noteq> ''''
     \<longrightarrow> Detect X src pwd ds = (src, None)
         \<and> Detect X (fst (Detect X src pwd ds)) pwd ds = (src, None)
         \<and> CtxDetect X src pwd rf cds = (src, None)
         \<and> CtxDetect X (fst (CtxDetect X src pwd rf cds)) pwd rf cds = (src, None))
   \<and> (plain_host host \<and> plain_path path \<and> r = ''git::ssh://git@'' @ host @ ''/'' @ path
      \<longrightarrow> ((\<forall>d' \<in> set pre. fst (snd (d' (''git@'' @ host @ '':'' @ path) pwd)) = False
                              \<and> snd (snd (d' (''git@'' @ host @ '':'' @ path) pwd)) = None)
            \<longrightarrow> Detect go_unix (''git@'' @ host @ '':'' @ path) pwd
                  (pre @ GitDetector_Detect go_unix # post) = (r, None)
                \<and> Detect go_unix r pwd (pre @ GitDetector_Detect go_unix # post) = (r, None))
          \<and> ((\<forall>c' \<in> set cpre.
                  fst (snd (c' (''git@'' @ host @ '':'' @ path) pwd '''' '''' rf)) = False
                  \<and> snd (snd (c' (''git@'' @ host @ '':'' @ path) pwd '''' '''' rf)) = None)
              \<longrightarrow> CtxDetect go_unix (''git@'' @ host @ '':'' @ path) pwd rf
                    (cpre @ GitCtxDetector_CtxDetect go_unix # cpost) = (r, None)
                  \<and> CtxDetect go_unix r pwd rf
                      (cpre @ GitCtxDetector_CtxDetect go_unix # cpost) = (r, None)))
   \<and> CtxDetect go_unix ''git::./somedir/two//three'' ''/pwd'' ''''
        [GitCtxDetector_CtxDetect go_unix]
     = (''git::file:///pwd/somedir/two//three'', None)
   \<and> CtxDetect go_unix ''git::file:///pwd/somedir/two//three'' ''/pwd'' ''''
        [GitCtxDetector_CtxDetect go_unix]
     = (''git::file:///pwd/somedir/two//three'', None)"
proof -
  have a: "helper_url_Parse X (fst (SourceDirSubdir X (snd (getForcedGetter X src)))) = Inr u
      \<and> Scheme u \<noteq> ''''
     \<longrightarrow> Detect X src pwd ds = (src, None)
         \<and> Detect X (fst (Detect X src pwd ds)) pwd ds = (src, None)
         \<and> CtxDetect X src pwd rf cds = (src, None)
         \<and> CtxDetect X (fst (CtxDetect X src pwd rf cds)) pwd rf cds = (src, None)"
    by (simp add: Detect_valid_url CtxDetect_valid_url)
  have b: "Detect go_unix (''git@'' @ host @ '':'' @ path) pwd
                  (pre @ GitDetector_Detect go_unix # post) = (r, None)
                \<and> Detect go_unix r pwd (pre @ GitDetector_Detect go_unix # post) = (r, None)"
    if "plain_host host" "plain_path path" "r = ''git::ssh://git@'' @ host @ ''/'' @ path"
       "\<forall>d' \<in> set pre. fst (snd (d' (''git@'' @ host @ '':'' @ path) pwd)) = False
                              \<and> snd (snd (d' (''git@'' @ host @ '':'' @ path) pwd)) = None"
  proof -
    have "Detect go_unix (''git@'' @ host @ '':'' @ path) pwd
            (pre @ GitDetector_Detect go_unix # post)
          = handleDetected go_unix (''git::ssh://git@'' @ host @ ''/'' @ path) '''' ''''"
      using that(4) ssh_src_not_url [OF that(1,2)]
      by (simp add: Detect_handleDetected go_unix_sel getForcedGetter_spec_ssh_src [OF that(1,2)]
            SourceDirSubdir_spec_ssh_src [OF that(1,2)] GitDetector_Detect_ssh_src [OF that(1,2)]
            del: append.simps)
    then show ?thesis
      unfolding that(3)
      by (simp add: handleDetected_ssh [OF that(1,2)] Detect_ssh_again [OF that(1,2)]
               del: append.simps)
  qed
  have c: "CtxDetect go_unix (''git@'' @ host @ '':'' @ path) pwd rf
                    (cpre @ GitCtxDetector_CtxDetect go_unix # cpost) = (r, None)
                  \<and> CtxDetect go_unix r pwd rf
                      (cpre @ GitCtxDetector_CtxDetect go_unix # cpost) = (r, None)"
    if "plain_host host" "plain_path path" "r = ''git::ssh://git@'' @ host @ ''/'' @ path"
       "\<forall>c' \<in> set cpre.
                  fst (snd (c' (''git@'' @ host @ '':'' @ path) pwd '''' '''' rf)) = False
                  \<and> snd (snd (c' (''git@'' @ host @ '':'' @ path) pwd '''' '''' rf)) = None"
  proof -
    have "CtxDetect go_unix (''git@'' @ host @ '':'' @ path) pwd rf
            (cpre @ GitCtxDetector_CtxDetect go_unix # cpost)
          = handleDetected go_unix (''git::ssh://git@'' @ host @ ''/'' @ path) '''' ''''"
      using that(4) ssh_src_not_url [OF that(1,2)]
      by (simp add: CtxDetect_handleDetected go_unix_sel
            getForcedGetter_spec_ssh_src [OF that(1,2)]
            SourceDirSubdir_spec_ssh_src [OF that(1,2)]
            GitCtxDetector_CtxDetect_ssh_src [OF that(1,2)]
            del: append.simps)
    then show ?thesis
      unfolding that(3)
      by (simp add: handleDetected_ssh [OF that(1,2)] CtxDetect_ssh_again [OF that(1,2)]
               del: append.simps)
  qed
  have e: "CtxDetect go_unix ''git::./somedir/two//three'' ''/pwd'' ''''
        [GitCtxDetector_CtxDetect go_unix]
     = (''git::file:///pwd/somedir/two//three'', None)"
     "CtxDetect go_unix ''git::file:///pwd/somedir/two//three'' ''/pwd'' ''''
        [GitCtxDetector_CtxDetect go_unix]
     = (''git::file:///pwd/somedir/two//three'', None)"
    by code_simp+
  from a b c e show ?thesis by (simp del: append.simps)
qed

text \<open>A forced URL; the spec's SSH example, in chains with a declining member
  before the Git detector and a failing one after it.\<close>

theorem C9_idempotent_on_urls_and_plain_git_ssh_witness:
  "Detect go_unix ''hg::https://example.com/repo//sub?rev=1'' ''/pwd'' [failing_Detector]
     = (''hg::https://example.com/repo//sub?rev=1'', None)
   \<and> Detect go_unix
        (fst (Detect go_unix ''hg::https://example.com/repo//sub?rev=1'' ''/pwd''
                [failing_Detector]))
        ''/pwd'' [failing_Detector]
     = (''hg::https://example.com/repo//sub?rev=1'', None)
   \<and> Detect go_unix ''git@github.com:hashicorp/foo.git'' ''/pwd''
        [declining_Detector, GitDetector_Detect go_unix, failing_Detector]
     = (''git::ssh://git@github.com/hashicorp/foo.git'', None)
   \<and> Detect go_unix ''git::ssh://git@github.com/hashicorp/foo.git'' ''/pwd''
        [declining_Detector, GitDetector_Detect go_unix, failing_Detector]
     = (''git::ssh://git@github.com/hashicorp/foo.git'', None)
   \<and> CtxDetect go_unix ''git@github.com:hashicorp/foo.git'' ''/pwd'' ''/base''
        [declining_CtxDetector, GitCtxDetector_CtxDetect go_unix, failing_CtxDetector]
     = (''git::ssh://git@github.com/hashicorp/foo.git'', None)
   \<and> CtxDetect go_unix ''git::ssh://git@github.com/hashicorp/foo.git'' ''/pwd'' ''/base''
        [declining_CtxDetector, GitCtxDetector_CtxDetect go_unix, failing_CtxDetector]
     = (''git::ssh://git@github.com/hashicorp/foo.git'', None)"
proof -
  have "case helper_url_Parse go_unix
               (fst (SourceDirSubdir go_unix
                  (snd (getForcedGetter go_unix ''hg::https://example.com/repo//sub?rev=1'')))) of
          Inl e \<Rightarrow> False | Inr u \<Rightarrow> Scheme u \<noteq> ''''"
    by code_simp
  then obtain u where
    p: "helper_url_Parse go_unix
          (fst (SourceDirSubdir go_unix
             (snd (getForcedGetter go_unix ''hg::https://example.com/repo//sub?rev=1'')))) = Inr u"
    and s: "Scheme u \<noteq> ''''"
    by (auto split: sum.splits)
  have h: "plain_host ''github.com''" and q: "plain_path ''hashicorp/foo.git''"
    by code_simp+
  note A = C9_idempotent_on_urls_and_plain_git_ssh
      [where X = go_unix and src = "''hg::https://example.com/repo//sub?rev=1''" and u = u
         and pwd = "''/pwd''" and ds = "[failing_Detector]"
         and host = "''github.com''" and path = "''hashicorp/foo.git''"
         and r = "''git::ssh://git@github.com/hashicorp/foo.git''"
         and pre = "[declining_Detector]" and post = "[failing_Detector]"
         and rf = "''/base''"
         and cpre = "[declining_CtxDetector]" and cpost = "[failing_CtxDetector]"]
  from A p s h q show ?thesis
    by (simp add: declining_Detector_def declining_CtxDetector_def)
qed

text \<open>C9 as stated fails: on \<open>git@a b:c\<close> the Git detector commits with a host
  that holds a space; \<open>URL.String\<close> writes it as \<open>%20\<close>, which \<open>Parse\<close> does not
  accept in a host, so the result is not a URL for the probe and no detector takes
  it.\<close>

theorem C9_counterexample:
  "Detect go_unix ''git@a b:c'' ''/pwd'' [GitDetector_Detect go_unix]
     = (''git::ssh://git@a%20b/c'', None)
   \<and> Detect go_unix ''git::ssh://git@a%20b/c'' ''/pwd'' [GitDetector_Detect go_unix]
     = ('''', Some (Error ''invalid source string: git::ssh://git@a%20b/c''))
   \<and> CtxDetect go_unix ''git@a b:c'' ''/pwd'' '''' [GitCtxDetector_CtxDetect go_unix]
     = (''git::ssh://git@a%20b/c'', None)
   \<and> fst (CtxDetect go_unix ''git::ssh://git@a%20b/c'' ''/pwd'' ''''
            [GitCtxDetector_CtxDetect go_unix])
     = ''''"
  by code_simp

end
